theory Spec2Isabelle
  imports Complex_Main
begin

section \<open>Data model of server.js\<close>

text \<open>
  The model follows \<^verbatim>\<open>server.js\<close>. Identifiers (user ids, room ids, dates, subjects) are
  strings. A JavaScript value that may be \<^verbatim>\<open>null\<close> or \<^verbatim>\<open>undefined\<close> is an
  \<open>option\<close>; the empty string is a value of its own, falsy as in JavaScript. Message fields
  are taken at their intended JSON types. Counters are JavaScript numbers holding integers,
  modelled as \<open>int\<close>; every \<^verbatim>\<open>Math.max(0, ...)\<close> of the source is written out.
  A \<^verbatim>\<open>Set\<close> is a duplicate-free list in insertion order, a \<^verbatim>\<open>Map\<close> that the
  code iterates is an association list in insertion order, and a \<^verbatim>\<open>Map\<close> that is
  only looked up is a partial function. A user is held in \<^verbatim>\<open>users\<close> under its own id, so
  \<^verbatim>\<open>user.id\<close> is the key. The field \<open>ratings\<close> of a statistics value is \<open>None\<close> when
  the value has no \<^verbatim>\<open>ratings\<close>.
\<close>

type_synonym uid = string
type_synonym rid = string

datatype role = Teacher | Student | Admin

record daily_rec =
  d_signals :: int
  d_calls :: int
  d_toiletSeconds :: int

record stats_rec =
  signals :: int
  calls :: int
  ratings :: "(string \<Rightarrow> int) option"
  toiletSeconds :: int
  daily :: "string \<rightharpoonup> daily_rec"

record user =
  u_role :: role
  u_name :: string
  u_className :: string
  u_stats :: "string \<rightharpoonup> stats_rec"

record room =
  r_subject :: string
  r_className :: string
  r_active :: bool
  r_allowSelfCall :: bool

record counter =
  c_signals :: int
  c_calls :: int
  c_toiletSeconds :: int

datatype tstatus = Pending | Allowed | Back

record toilet =
  t_status :: tstatus
  t_start :: "int option"

record log_entry =
  le_id :: string
  le_ts :: int
  le_userId :: string
  le_action :: string
  le_rating :: "string option"
  le_selfCall :: bool

record poll_option =
  o_id :: string
  o_text :: string
  o_count :: int

record poll =
  p_id :: string
  p_question :: string
  p_options :: "poll_option list"
  p_multiple :: bool
  p_votes :: "(uid \<times> string list) list"

record question =
  q_id :: string
  q_text :: string
  q_ts :: int

record thoughts =
  th_active :: bool
  th_entries :: "string list"

text \<open>A socket carries \<^verbatim>\<open>ws.userId\<close>, \<^verbatim>\<open>ws.role\<close>, \<^verbatim>\<open>ws.roomId\<close>
  (all \<^verbatim>\<open>null\<close> on connection) and whether its \<^verbatim>\<open>readyState\<close> is \<^verbatim>\<open>OPEN\<close>.\<close>

record socket =
  ws_userId :: "uid option"
  ws_role :: "role option"
  ws_roomId :: "rid option"
  ws_open :: bool

text \<open>The in-memory state: the global maps of the source and \<^verbatim>\<open>wss.clients\<close>, whose
  sockets are addressed by their position. \<^verbatim>\<open>pollsMap\<close> is keyed by the resolved room
  id, which may be \<^verbatim>\<open>null\<close>; its values may be \<^verbatim>\<open>null\<close> too. The last field is
  no variable of the source: it holds the statistics fields that handlers have written on
  the built-in values which \<^verbatim>\<open>user.stats\<close> inherits from \<^verbatim>\<open>Object.prototype\<close>
  (see \<open>get_stats\<close> below), by property name.\<close>

record state =
  users :: "uid \<rightharpoonup> user"
  rooms :: "rid \<rightharpoonup> room"
  logs :: "rid \<rightharpoonup> log_entry list"
  userSockets :: "uid \<rightharpoonup> nat list"
  roomMembers :: "rid \<rightharpoonup> uid list"
  readyMap :: "rid \<rightharpoonup> uid list"
  roomCounters :: "rid \<rightharpoonup> (uid \<rightharpoonup> counter)"
  toiletMap :: "rid \<rightharpoonup> (uid \<rightharpoonup> toilet)"
  importantMap :: "rid \<rightharpoonup> uid list"
  questionsMap :: "rid \<rightharpoonup> question list"
  pollsMap :: "rid option \<rightharpoonup> poll option"
  thoughtsMap :: "rid \<rightharpoonup> thoughts"
  clients :: "socket list"
  inheritedStats :: "string \<Rightarrow> stats_rec"

text \<open>What the clock and the id generator give to one message: \<^verbatim>\<open>Date.now()\<close>, the
  date \<^verbatim>\<open>new Date().toISOString().slice(0, 10)\<close> (year, month and day, so no name that
  an object inherits) and the result of \<^verbatim>\<open>genId\<close>.\<close>

record env =
  now :: int
  today :: string
  fresh_id :: string

subsection \<open>JavaScript idioms\<close>

definition truthy :: "string option \<Rightarrow> bool" where
  "truthy v = (case v of None \<Rightarrow> False | Some s \<Rightarrow> s \<noteq> [])"

text \<open>\<^verbatim>\<open>a || b\<close> on values that are strings or null.\<close>

definition or_else :: "string option \<Rightarrow> string option \<Rightarrow> string option" where
  "or_else a b = (if truthy a then a else b)"

text \<open>\<^verbatim>\<open>s || d\<close> for a string with a default.\<close>

definition str_or :: "string \<Rightarrow> string \<Rightarrow> string" where
  "str_or s d = (if s = [] then d else s)"

text \<open>\<^verbatim>\<open>Set.add\<close> and \<^verbatim>\<open>Set.delete\<close>.\<close>

definition set_add :: "'a \<Rightarrow> 'a list \<Rightarrow> 'a list" where
  "set_add x xs = (if x \<in> set xs then xs else xs @ [x])"

definition set_delete :: "'a \<Rightarrow> 'a list \<Rightarrow> 'a list" where
  "set_delete x xs = filter (\<lambda>y. y \<noteq> x) xs"

text \<open>\<^verbatim>\<open>const s = m.get(k); if (s) s.delete(x)\<close>.\<close>

definition delete_in :: "('k \<rightharpoonup> 'a list) \<Rightarrow> 'k \<Rightarrow> 'a \<Rightarrow> ('k \<rightharpoonup> 'a list)" where
  "delete_in m k x = (case m k of None \<Rightarrow> m | Some xs \<Rightarrow> m(k \<mapsto> set_delete x xs))"

text \<open>\<^verbatim>\<open>if (!m.has(k)) m.set(k, new Set()); m.get(k).add(x)\<close>.\<close>

definition add_in :: "('k \<rightharpoonup> 'a list) \<Rightarrow> 'k \<Rightarrow> 'a \<Rightarrow> ('k \<rightharpoonup> 'a list)" where
  "add_in m k x = (case m k of None \<Rightarrow> m(k \<mapsto> [x]) | Some xs \<Rightarrow> m(k \<mapsto> set_add x xs))"

text \<open>\<^verbatim>\<open>(m.get(k) || new Set()).has(x)\<close>.\<close>

definition has_in :: "('k \<rightharpoonup> 'a list) \<Rightarrow> 'k \<Rightarrow> 'a \<Rightarrow> bool" where
  "has_in m k x = (case m k of None \<Rightarrow> False | Some xs \<Rightarrow> x \<in> set xs)"

text \<open>\<^verbatim>\<open>Map.set\<close> on an insertion-ordered map: an existing key keeps its place.\<close>

fun map_set :: "'k \<Rightarrow> 'v \<Rightarrow> ('k \<times> 'v) list \<Rightarrow> ('k \<times> 'v) list" where
  "map_set k v [] = [(k, v)]"
| "map_set k v (p # ps) = (if fst p = k then (k, v) # ps else p # map_set k v ps)"

subsection \<open>Statistics records\<close>

definition new_stats :: stats_rec where
  "new_stats =
     \<lparr>signals = 0, calls = 0, ratings = Some (\<lambda>_. 0), toiletSeconds = 0, daily = Map.empty\<rparr>"

definition new_daily :: daily_rec where
  "new_daily = \<lparr>d_signals = 0, d_calls = 0, d_toiletSeconds = 0\<rparr>"

definition new_counter :: counter where
  "new_counter = \<lparr>c_signals = 0, c_calls = 0, c_toiletSeconds = 0\<rparr>"

text \<open>\<^verbatim>\<open>user.stats\<close> is a plain object, and \<^verbatim>\<open>user.stats[subject]\<close> is read through the
  prototype chain: it is the user's own record when there is one; otherwise it is what a
  plain object inherits from \<^verbatim>\<open>Object.prototype\<close> under that name, which is
  \<^verbatim>\<open>undefined\<close> for most names, a built-in function for eleven names, and
  \<^verbatim>\<open>Object.prototype\<close> itself for \<^verbatim>\<open>__proto__\<close>. An inherited value is truthy, so
  \<^verbatim>\<open>ensureStats\<close> creates no record and returns the inherited value. That value has no
  \<^verbatim>\<open>ratings\<close>, and what a handler writes on it (\<^verbatim>\<open>signals\<close>, \<^verbatim>\<open>calls\<close>,
  \<^verbatim>\<open>toiletSeconds\<close>, \<^verbatim>\<open>daily\<close>) is a field of the built-in value, the same for every
  user; \<open>inheritedStats\<close> keeps these fields under the name, a field never written being
  0 or empty as \<^verbatim>\<open>(s.signals || 0)\<close> and \<^verbatim>\<open>s.daily || {}\<close> read it. A field written on
  \<^verbatim>\<open>Object.prototype\<close> itself would in turn be inherited by other objects; this is not
  followed.\<close>

definition objectPrototypeNames :: "string list" where
  "objectPrototypeNames =
     [''constructor'', ''__defineGetter__'', ''__defineSetter__'', ''hasOwnProperty'',
      ''__lookupGetter__'', ''__lookupSetter__'', ''isPrototypeOf'', ''propertyIsEnumerable'',
      ''toString'', ''valueOf'', ''__proto__'', ''toLocaleString'']"

text \<open>Whether \<^verbatim>\<open>user.stats[subject]\<close> is an inherited value.\<close>

definition inherits :: "user \<Rightarrow> string \<Rightarrow> bool" where
  "inherits u subject = (u_stats u subject = None \<and> subject \<in> set objectPrototypeNames)"

text \<open>\<^verbatim>\<open>ensureStats(user, subject)\<close> on an existing user: the value it returns, and the
  user after the lazy creation of a record.\<close>

definition get_stats :: "state \<Rightarrow> user \<Rightarrow> string \<Rightarrow> stats_rec" where
  "get_stats st u subject =
     (case u_stats u subject of
        Some s \<Rightarrow> s
      | None \<Rightarrow>
          if subject \<in> set objectPrototypeNames then (inheritedStats st subject)\<lparr>ratings := None\<rparr>
          else new_stats)"

definition ensureStats :: "user \<Rightarrow> string \<Rightarrow> user" where
  "ensureStats u subject =
     (if u_stats u subject = None \<and> subject \<notin> set objectPrototypeNames
      then u\<lparr>u_stats := (u_stats u)(subject \<mapsto> new_stats)\<rparr> else u)"

text \<open>The statistics of a user for a subject, as \<^verbatim>\<open>ensureStats(users.get(id), subject)\<close>
  reads them (for no user, \<^verbatim>\<open>ensureStats\<close> returns a fresh record that nothing keeps).\<close>

definition stats_of :: "state \<Rightarrow> uid \<Rightarrow> string \<Rightarrow> stats_rec" where
  "stats_of st u subject =
     (case users st u of None \<Rightarrow> new_stats | Some x \<Rightarrow> get_stats st x subject)"

text \<open>The bucket that \<^verbatim>\<open>ensureDaily(user, subject, date)\<close> returns, read from the value
  of \<^verbatim>\<open>ensureStats\<close>.\<close>

definition get_daily :: "stats_rec \<Rightarrow> string \<Rightarrow> daily_rec" where
  "get_daily s date = (case daily s date of None \<Rightarrow> new_daily | Some d \<Rightarrow> d)"

text \<open>The update pattern of the handlers on the user with id \<open>u\<close>:
  \<^verbatim>\<open>const s = ensureStats(user, subject); s.f = ...\<close> changes the value that
  \<^verbatim>\<open>ensureStats\<close> returns, the user's own record (created when missing) or the inherited
  value; \<^verbatim>\<open>const d = ensureDaily(user, subject, today); d.f = ...\<close> changes the bucket
  of the date in it (created when missing).\<close>

definition put_stats :: "state \<Rightarrow> uid \<Rightarrow> string \<Rightarrow> stats_rec \<Rightarrow> state" where
  "put_stats st u subject s =
     (case users st u of None \<Rightarrow> st
      | Some x \<Rightarrow>
          if inherits x subject then st\<lparr>inheritedStats := (inheritedStats st)(subject := s)\<rparr>
          else st\<lparr>users := (users st)(u \<mapsto> x\<lparr>u_stats := (u_stats x)(subject \<mapsto> s)\<rparr>)\<rparr>)"

definition map_stats :: "state \<Rightarrow> uid \<Rightarrow> string \<Rightarrow> (stats_rec \<Rightarrow> stats_rec) \<Rightarrow> state" where
  "map_stats st u subject f = put_stats st u subject (f (stats_of st u subject))"

definition map_daily ::
  "state \<Rightarrow> uid \<Rightarrow> string \<Rightarrow> string \<Rightarrow> (daily_rec \<Rightarrow> daily_rec) \<Rightarrow> state" where
  "map_daily st u subject date g =
     map_stats st u subject (\<lambda>s. s\<lparr>daily := (daily s)(date \<mapsto> g (get_daily s date))\<rparr>)"

text \<open>Whether the statistics of the user with id \<open>u\<close> for the subject are an inherited
  value.\<close>

definition inherits_at :: "state \<Rightarrow> uid \<Rightarrow> string \<Rightarrow> bool" where
  "inherits_at st u subject = (case users st u of None \<Rightarrow> False | Some x \<Rightarrow> inherits x subject)"

text \<open>\<^verbatim>\<open>counter.get(userId) || { signals: 0, calls: 0, toiletSeconds: 0 }\<close> on
  \<^verbatim>\<open>roomCounters.get(roomId)\<close>.\<close>

definition get_counter :: "state \<Rightarrow> rid \<Rightarrow> uid \<Rightarrow> counter" where
  "get_counter st r u =
     (case roomCounters st r of None \<Rightarrow> new_counter
      | Some m \<Rightarrow> (case m u of None \<Rightarrow> new_counter | Some c \<Rightarrow> c))"

text \<open>\<^verbatim>\<open>if (!roomCounters.has(roomId)) roomCounters.set(roomId, new Map()); ...
  counter.set(userId, current)\<close>.\<close>

definition set_counter :: "state \<Rightarrow> rid \<Rightarrow> uid \<Rightarrow> counter \<Rightarrow> state" where
  "set_counter st r u c =
     st\<lparr>roomCounters := (roomCounters st)
           (r \<mapsto> (case roomCounters st r of None \<Rightarrow> Map.empty | Some m \<Rightarrow> m)(u \<mapsto> c))\<rparr>"

definition getToiletState :: "state \<Rightarrow> rid \<Rightarrow> uid \<Rightarrow> toilet option" where
  "getToiletState st r u = (case toiletMap st r of None \<Rightarrow> None | Some m \<Rightarrow> m u)"

definition isImportant :: "state \<Rightarrow> rid \<Rightarrow> uid \<Rightarrow> bool" where
  "isImportant st r u = has_in (importantMap st) r u"

definition resetReady :: "state \<Rightarrow> rid \<Rightarrow> uid \<Rightarrow> state" where
  "resetReady st r u = st\<lparr>readyMap := delete_in (readyMap st) r u\<rparr>"


section \<open>Outbound messages and views\<close>

text \<open>The views pushed to sockets. A delivery is the position of the receiving socket in
  \<^verbatim>\<open>wss.clients\<close> and the message. The roster payload (and the roster cache behind it)
  and the writes to the JSON files are not modelled.\<close>

record presence_entry =
  pe_userId :: uid
  pe_name :: string
  pe_role :: role
  pe_ready :: bool
  pe_online :: bool
  pe_important :: bool

record log_view =
  lv_id :: string
  lv_ts :: int
  lv_userId :: string
  lv_action :: string
  lv_name :: string
  lv_rating :: "string option"
  lv_selfCall :: bool

record stats_item =
  si_userId :: uid
  si_name :: string
  si_session :: counter
  si_total :: stats_rec

datatype out_msg =
    OPresence rid "presence_entry list"
  | OLog rid "log_view list"
  | OMyLog rid "log_view list"
  | OStats rid "stats_item list"
  | OMyStats rid string stats_item
  | ORoster rid
  | ORoomSettings rid bool
  | OQuestionList rid "question list"
  | OPoll "rid option" string string "poll_option list" bool
  | OToilet rid uid tstatus "int option"
  | OToiletBack rid uid int
  | OToiletAllowed rid int
  | OImportant rid uid string
  | OReady rid uid string
  | OReset rid uid

type_synonym delivery = "nat \<times> out_msg"

text \<open>The open sockets whose \<^verbatim>\<open>roomId\<close> is the given one, in the order of
  \<^verbatim>\<open>wss.clients\<close>. No handler modelled here passes the optional \<^verbatim>\<open>exclude\<close>
  argument of \<^verbatim>\<open>broadcastRoom\<close>.\<close>

definition room_sockets :: "state \<Rightarrow> rid option \<Rightarrow> (nat \<times> socket) list" where
  "room_sockets st r =
     filter (\<lambda>(i, c). ws_open c \<and> ws_roomId c = r) (enumerate 0 (clients st))"

definition broadcastRoom :: "state \<Rightarrow> rid option \<Rightarrow> out_msg \<Rightarrow> delivery list" where
  "broadcastRoom st r m = map (\<lambda>(i, c). (i, m)) (room_sockets st r)"

definition sendToUser :: "state \<Rightarrow> uid \<Rightarrow> out_msg \<Rightarrow> delivery list" where
  "sendToUser st u m =
     (case userSockets st u of None \<Rightarrow> []
      | Some socks \<Rightarrow>
          map (\<lambda>i. (i, m)) (filter (\<lambda>i. i < length (clients st) \<and> ws_open (clients st ! i)) socks))"

definition presence_of :: "state \<Rightarrow> rid \<Rightarrow> uid \<Rightarrow> presence_entry" where
  "presence_of st r u =
     \<lparr>pe_userId = u,
      pe_name = (case users st u of None \<Rightarrow> ''Unbekannt'' | Some x \<Rightarrow> str_or (u_name x) ''Unbekannt''),
      pe_role = (case users st u of None \<Rightarrow> Student | Some x \<Rightarrow> u_role x),
      pe_ready = has_in (readyMap st) r u,
      pe_online = (case userSockets st u of None \<Rightarrow> False | Some socks \<Rightarrow> socks \<noteq> []),
      pe_important = isImportant st r u\<rparr>"

definition updatePresence :: "state \<Rightarrow> rid \<Rightarrow> delivery list" where
  "updatePresence st r =
     (let members = (case roomMembers st r of None \<Rightarrow> [] | Some ms \<Rightarrow> ms)
      in broadcastRoom st (Some r) (OPresence r (map (presence_of st r) members)))"

text \<open>\<^verbatim>\<open>sendLogUpdates\<close>: the filter and the map applied for one socket, then the
  fan-out. \<^verbatim>\<open>isTeacher\<close> is \<^verbatim>\<open>client.role === 'teacher'\<close>.\<close>

definition log_visible :: "bool \<Rightarrow> uid option \<Rightarrow> log_entry \<Rightarrow> bool" where
  "log_visible isTeacher client_uid e =
     (if \<not> isTeacher \<and> Some (le_userId e) \<noteq> client_uid then False
      else if le_action e = ''signal'' \<or> le_action e = ''withdraw'' then False
      else if \<not> isTeacher \<and> le_action e = ''rating'' then False
      else True)"

definition log_entry_view :: "state \<Rightarrow> bool \<Rightarrow> log_entry \<Rightarrow> log_view" where
  "log_entry_view st isTeacher e =
     \<lparr>lv_id = le_id e, lv_ts = le_ts e, lv_userId = le_userId e, lv_action = le_action e,
      lv_name = (case users st (le_userId e) of None \<Rightarrow> ''Unbekannt''
                 | Some x \<Rightarrow> str_or (u_name x) ''Unbekannt''),
      lv_rating = (if isTeacher then le_rating e else None),
      lv_selfCall = le_selfCall e\<rparr>"

definition log_projection :: "state \<Rightarrow> rid \<Rightarrow> socket \<Rightarrow> log_view list" where
  "log_projection st r client =
     (let log = (case logs st r of None \<Rightarrow> [] | Some es \<Rightarrow> es);
          isTeacher = (ws_role client = Some Teacher)
      in map (log_entry_view st isTeacher) (filter (log_visible isTeacher (ws_userId client)) log))"

definition sendLogUpdates :: "state \<Rightarrow> rid \<Rightarrow> delivery list" where
  "sendLogUpdates st r =
     map (\<lambda>(i, client).
            (i, if ws_role client = Some Teacher then OLog r (log_projection st r client)
                else OMyLog r (log_projection st r client)))
         (room_sockets st (Some r))"

definition appendLog :: "state \<Rightarrow> env \<Rightarrow> rid \<Rightarrow> log_entry \<Rightarrow> state \<times> delivery list" where
  "appendLog st e r entry =
     (let entry' = (if le_id entry = [] then entry\<lparr>le_id := fresh_id e\<rparr> else entry);
          st' = st\<lparr>logs := (logs st)(r \<mapsto> (case logs st r of None \<Rightarrow> [] | Some es \<Rightarrow> es) @ [entry'])\<rparr>
      in (st', sendLogUpdates st' r))"

text \<open>\<^verbatim>\<open>sendStats\<close>: the members that are known users and neither teacher nor admin;
  \<^verbatim>\<open>ensureStats\<close> creates their record of the subject when it is missing and nothing is
  inherited.\<close>

definition stats_members :: "state \<Rightarrow> rid \<Rightarrow> uid list" where
  "stats_members st r =
     filter (\<lambda>u. case users st u of None \<Rightarrow> False
                 | Some x \<Rightarrow> u_role x \<noteq> Teacher \<and> u_role x \<noteq> Admin)
            (case roomMembers st r of None \<Rightarrow> [] | Some ms \<Rightarrow> ms)"

definition ensure_all :: "string \<Rightarrow> uid list \<Rightarrow> (uid \<rightharpoonup> user) \<Rightarrow> (uid \<rightharpoonup> user)" where
  "ensure_all subject us m =
     fold (\<lambda>u m'. case m' u of None \<Rightarrow> m' | Some x \<Rightarrow> m'(u \<mapsto> ensureStats x subject)) us m"

definition stats_item_of :: "state \<Rightarrow> rid \<Rightarrow> string \<Rightarrow> uid \<Rightarrow> stats_item" where
  "stats_item_of st r subject u =
     \<lparr>si_userId = u,
      si_name = (case users st u of None \<Rightarrow> ''Unbekannt'' | Some x \<Rightarrow> str_or (u_name x) ''Unbekannt''),
      si_session = get_counter st r u,
      si_total = stats_of st u subject\<rparr>"

definition sendStats :: "state \<Rightarrow> rid \<Rightarrow> state \<times> delivery list" where
  "sendStats st r =
     (case rooms st r of None \<Rightarrow> (st, [])
      | Some room \<Rightarrow>
          (let subject = str_or (r_subject room) ''default'';
               ms = stats_members st r;
               st' = st\<lparr>users := ensure_all subject ms (users st)\<rparr>;
               items = map (stats_item_of st' r subject) ms
           in (st',
               map (\<lambda>(i, c). (i, OStats r items))
                   (filter (\<lambda>(i, c). ws_role c = Some Teacher) (room_sockets st' (Some r)))
               @ concat (map (\<lambda>it. sendToUser st' (si_userId it) (OMyStats r subject it)) items))))"

definition sendRoster :: "state \<Rightarrow> rid \<Rightarrow> delivery list" where
  "sendRoster st r =
     (case rooms st r of None \<Rightarrow> []
      | Some room \<Rightarrow> if r_className room = [] then [] else broadcastRoom st (Some r) (ORoster r))"

definition sendRoomSettings :: "state \<Rightarrow> rid \<Rightarrow> delivery list" where
  "sendRoomSettings st r =
     (case rooms st r of None \<Rightarrow> []
      | Some room \<Rightarrow> broadcastRoom st (Some r) (ORoomSettings r (r_allowSelfCall room)))"

definition broadcastQuestions :: "state \<Rightarrow> rid \<Rightarrow> delivery list" where
  "broadcastQuestions st r =
     (let list = (case questionsMap st r of None \<Rightarrow> [] | Some qs \<Rightarrow> qs)
      in map (\<lambda>(i, c). (i, OQuestionList r list))
           (filter (\<lambda>(i, c). ws_role c = Some Teacher \<or> ws_role c = Some Admin)
                   (room_sockets st (Some r))))"

definition broadcastPoll :: "state \<Rightarrow> rid option \<Rightarrow> delivery list" where
  "broadcastPoll st r =
     (case pollsMap st r of
        Some (Some p) \<Rightarrow> broadcastRoom st r (OPoll r (p_id p) (p_question p) (p_options p) (p_multiple p))
      | _ \<Rightarrow> [])"

section \<open>Message handlers\<close>

text \<open>Each handler is the body of one \<^verbatim>\<open>if (type === ...)\<close> block of the message
  callback. It gets the position \<open>i\<close> of the socket \<^verbatim>\<open>ws\<close>, the user id \<^verbatim>\<open>ws.userId\<close>
  and, where it reads the user's role, class or name, the user \<^verbatim>\<open>users.get(ws.userId)\<close>
  that the callback has checked before, and returns the new state with the deliveries in
  the order they are sent. The two handlers that can throw return the exception instead.\<close>

datatype error = TypeError

definition set_room :: "state \<Rightarrow> nat \<Rightarrow> rid option \<Rightarrow> state" where
  "set_room st i r = st\<lparr>clients := (clients st)[i := (clients st ! i)\<lparr>ws_roomId := r\<rparr>]\<rparr>"

text \<open>The student check of \<^verbatim>\<open>join\<close>, \<^verbatim>\<open>ready\<close> and \<^verbatim>\<open>toilet\<close>:
  \<^verbatim>\<open>role === 'student' && room.className && user.className && user.className !== room.className\<close>.\<close>

definition class_mismatch :: "user \<Rightarrow> room \<Rightarrow> bool" where
  "class_mismatch u room =
     (u_role u = Student \<and> r_className room \<noteq> [] \<and> u_className u \<noteq> []
      \<and> u_className u \<noteq> r_className room)"

subsection \<open>join\<close>

text \<open>The block \<^verbatim>\<open>if (ws.roomId && ws.roomId !== roomId) { ... }\<close> of \<^verbatim>\<open>join\<close>.\<close>

definition leave_previous :: "state \<Rightarrow> rid \<Rightarrow> uid \<Rightarrow> state \<times> delivery list" where
  "leave_previous st prev u =
     (let st1 = (case getToiletState st prev u of
                   None \<Rightarrow> st\<lparr>roomMembers := delete_in (roomMembers st) prev u\<rparr>
                 | Some t \<Rightarrow> if t_status t = Back
                             then st\<lparr>roomMembers := delete_in (roomMembers st) prev u\<rparr> else st);
          st2 = st1\<lparr>importantMap := delete_in (importantMap st1) prev u\<rparr>;
          st3 = resetReady st2 prev u
      in (st3, updatePresence st3 prev))"

definition init_containers :: "state \<Rightarrow> rid \<Rightarrow> state" where
  "init_containers st r =
     st\<lparr>readyMap := (if readyMap st r = None then (readyMap st)(r \<mapsto> []) else readyMap st),
        importantMap := (if importantMap st r = None then (importantMap st)(r \<mapsto> []) else importantMap st),
        questionsMap := (if questionsMap st r = None then (questionsMap st)(r \<mapsto> []) else questionsMap st),
        pollsMap := (if pollsMap st (Some r) = None then (pollsMap st)(Some r \<mapsto> None) else pollsMap st),
        thoughtsMap := (if thoughtsMap st r = None
                        then (thoughtsMap st)(r \<mapsto> \<lparr>th_active = False, th_entries = []\<rparr>)
                        else thoughtsMap st)\<rparr>"

definition handle_join :: "state \<Rightarrow> nat \<Rightarrow> uid \<Rightarrow> user \<Rightarrow> rid option \<Rightarrow> state \<times> delivery list" where
  "handle_join st i u user msg_roomId =
     (case msg_roomId of None \<Rightarrow> (st, [])
      | Some roomId \<Rightarrow>
     (case rooms st roomId of None \<Rightarrow> (st, [])
      | Some room \<Rightarrow>
          if \<not> r_active room then (st, [])
          else if class_mismatch user room then (st, [])
          else
            (let ws = clients st ! i;
                 (st1, out1) =
                   (case ws_roomId ws of None \<Rightarrow> (st, [])
                    | Some prev \<Rightarrow>
                        if prev \<noteq> [] \<and> prev \<noteq> roomId then leave_previous st prev u else (st, []));
                 st2 = set_room st1 i (Some roomId);
                 st3 = st2\<lparr>roomMembers := add_in (roomMembers st2) roomId u\<rparr>;
                 st4 = init_containers st3 roomId;
                 out2 = updatePresence st4 roomId;
                 out3 = sendLogUpdates st4 roomId;
                 (st5, out4) = sendStats st4 roomId;
                 out5 = sendRoster st5 roomId;
                 out6 = sendRoomSettings st5 roomId;
                 out7 = (case getToiletState st5 roomId u of None \<Rightarrow> []
                         | Some t \<Rightarrow>
                             if t_status t \<noteq> Back
                             then broadcastRoom st5 (Some roomId)
                                    (OToilet roomId u (t_status t)
                                       (case t_start t of None \<Rightarrow> None
                                        | Some s \<Rightarrow> if s = 0 then None else Some s))
                             else []);
                 out8 = (if isImportant st5 roomId u
                         then broadcastRoom st5 (Some roomId) (OImportant roomId u ''pending'')
                         else []);
                 out9 = (if ws_role ws = Some Teacher \<or> ws_role ws = Some Admin
                         then broadcastQuestions st5 roomId @ broadcastPoll st5 (Some roomId)
                         else [])
             in (st5, out1 @ out2 @ out3 @ out4 @ out5 @ out6 @ out7 @ out8 @ out9))))"

subsection \<open>leave and the close of a socket\<close>

definition handle_leave :: "state \<Rightarrow> nat \<Rightarrow> uid \<Rightarrow> state \<times> delivery list" where
  "handle_leave st i u =
     (case ws_roomId (clients st ! i) of None \<Rightarrow> (st, [])
      | Some roomId \<Rightarrow>
          if roomId = [] then (st, [])
          else
            (let st1 = st\<lparr>roomMembers := delete_in (roomMembers st) roomId u\<rparr>;
                 st2 = resetReady st1 roomId u;
                 st3 = st2\<lparr>importantMap := delete_in (importantMap st2) roomId u\<rparr>;
                 st4 = set_room st3 i None
             in (st4, updatePresence st4 roomId @ sendRoster st4 roomId)))"

definition detachSocket :: "state \<Rightarrow> uid \<Rightarrow> nat \<Rightarrow> state" where
  "detachSocket st u i =
     (case userSockets st u of None \<Rightarrow> st
      | Some socks \<Rightarrow>
          (let socks' = set_delete i socks
           in if socks' = [] then st\<lparr>userSockets := (userSockets st)(u := None)\<rparr>
              else st\<lparr>userSockets := (userSockets st)(u \<mapsto> socks')\<rparr>))"

text \<open>The \<^verbatim>\<open>close\<close> callback of socket \<open>i\<close>. The closed socket stays at its position and
  is no longer \<^verbatim>\<open>OPEN\<close>.\<close>

definition on_close :: "state \<Rightarrow> nat \<Rightarrow> state \<times> delivery list" where
  "on_close st i =
     (if length (clients st) \<le> i then (st, [])
      else
        (let ws = clients st ! i;
             st0 = st\<lparr>clients := (clients st)[i := ws\<lparr>ws_open := False\<rparr>]\<rparr>
         in case ws_userId ws of None \<Rightarrow> (st0, [])
            | Some u \<Rightarrow>
                if u = [] then (st0, [])
                else
                  (let st1 = detachSocket st0 u i
                   in case ws_roomId ws of None \<Rightarrow> (st1, [])
                      | Some roomId \<Rightarrow>
                          if roomId = [] then (st1, [])
                          else
                            (let keepMember =
                                   (case getToiletState st1 roomId u of None \<Rightarrow> False
                                    | Some t \<Rightarrow> t_status t \<noteq> Back);
                                 st2 = (if \<not> keepMember
                                        then resetReady
                                               (st1\<lparr>roomMembers := delete_in (roomMembers st1) roomId u\<rparr>)
                                               roomId u
                                        else st1)
                             in (st2, updatePresence st2 roomId)))))"

subsection \<open>withdraw and ready\<close>

definition handle_withdraw ::
  "state \<Rightarrow> nat \<Rightarrow> uid \<Rightarrow> env \<Rightarrow> rid option \<Rightarrow> state \<times> delivery list" where
  "handle_withdraw st i u e msg_roomId =
     (case or_else msg_roomId (ws_roomId (clients st ! i)) of None \<Rightarrow> (st, [])
      | Some roomId \<Rightarrow>
          if roomId = [] then (st, [])
          else
     (case readyMap st roomId of None \<Rightarrow> (st, [])
      | Some rs \<Rightarrow>
          (let st1 = st\<lparr>readyMap := (readyMap st)(roomId \<mapsto> set_delete u rs)\<rparr>;
               st2 = (case rooms st1 roomId of None \<Rightarrow> st1
                      | Some room \<Rightarrow>
                          (let subject = str_or (r_subject room) ''default'';
                               sta = map_stats st1 u subject
                                       (\<lambda>s. s\<lparr>signals := max 0 (signals s - 1)\<rparr>)
                           in map_daily sta u subject (today e)
                                (\<lambda>d. d\<lparr>d_signals := max 0 (d_signals d - 1)\<rparr>)));
               st3 = (case roomCounters st2 roomId of None \<Rightarrow> st2
                      | Some _ \<Rightarrow>
                          (let current = get_counter st2 roomId u
                           in set_counter st2 roomId u
                                (current\<lparr>c_signals := max 0 (c_signals current - 1)\<rparr>)));
               out1 = broadcastRoom st3 (Some roomId) (OReset roomId u);
               st4 = st3\<lparr>importantMap := delete_in (importantMap st3) roomId u\<rparr>;
               out2 = updatePresence st4 roomId;
               (st5, out3) = sendStats st4 roomId
           in (st5, out1 @ out2 @ out3))))"

definition handle_ready ::
  "state \<Rightarrow> nat \<Rightarrow> uid \<Rightarrow> user \<Rightarrow> env \<Rightarrow> rid option \<Rightarrow> state \<times> delivery list" where
  "handle_ready st i u user e msg_roomId =
     (case or_else msg_roomId (ws_roomId (clients st ! i)) of None \<Rightarrow> (st, [])
      | Some roomId \<Rightarrow>
     (case rooms st roomId of None \<Rightarrow> (st, [])
      | Some room \<Rightarrow>
          if u_role user = Teacher then (st, [])
          else if class_mismatch user room then (st, [])
          else
            (let st1 = set_room st i (Some roomId);
                 st2 = st1\<lparr>roomMembers := add_in (roomMembers st1) roomId u\<rparr>;
                 st3 = st2\<lparr>readyMap := add_in (readyMap st2) roomId u\<rparr>;
                 current = get_counter st3 roomId u;
                 st4 = set_counter st3 roomId u (current\<lparr>c_signals := c_signals current + 1\<rparr>);
                 subject = str_or (r_subject room) ''default'';
                 sta = map_stats st4 u subject (\<lambda>s. s\<lparr>signals := max 0 (signals s + 1)\<rparr>);
                 st5 = map_daily sta u subject (today e)
                         (\<lambda>d. d\<lparr>d_signals := max 0 (d_signals d + 1)\<rparr>);
                 out1 = broadcastRoom st5 (Some roomId) (OReady roomId u (u_name user));
                 out2 = updatePresence st5 roomId;
                 (st6, out3) = sendStats st5 roomId
             in (st6, out1 @ out2 @ out3))))"

subsection \<open>The toilet workflow\<close>

definition handle_toilet :: "state \<Rightarrow> nat \<Rightarrow> uid \<Rightarrow> user \<Rightarrow> rid option \<Rightarrow> state \<times> delivery list" where
  "handle_toilet st i u user msg_roomId =
     (case or_else msg_roomId (ws_roomId (clients st ! i)) of None \<Rightarrow> (st, [])
      | Some roomId \<Rightarrow>
     (case rooms st roomId of None \<Rightarrow> (st, [])
      | Some room \<Rightarrow>
          if u_role user = Teacher then (st, [])
          else if class_mismatch user room then (st, [])
          else
            (let st1 = set_room st i (Some roomId);
                 st2 = st1\<lparr>roomMembers := add_in (roomMembers st1) roomId u\<rparr>;
                 stateMap = (case toiletMap st2 roomId of None \<Rightarrow> Map.empty | Some m \<Rightarrow> m);
                 st3 = st2\<lparr>toiletMap := (toiletMap st2)
                             (roomId \<mapsto> stateMap(u \<mapsto> \<lparr>t_status = Pending, t_start = None\<rparr>))\<rparr>
             in (st3, broadcastRoom st3 (Some roomId) (OToilet roomId u Pending None)
                      @ updatePresence st3 roomId))))"

definition handle_toiletAllow ::
  "state \<Rightarrow> nat \<Rightarrow> env \<Rightarrow> rid option \<Rightarrow> uid option \<Rightarrow> state \<times> delivery list" where
  "handle_toiletAllow st i e msg_roomId msg_userId =
     (case or_else msg_roomId (ws_roomId (clients st ! i)) of None \<Rightarrow> (st, [])
      | Some roomId \<Rightarrow>
     (case msg_userId of None \<Rightarrow> (st, [])
      | Some targetUserId \<Rightarrow>
          if roomId = [] \<or> targetUserId = [] then (st, [])
          else
            (let stateMap = (case toiletMap st roomId of None \<Rightarrow> Map.empty | Some m \<Rightarrow> m);
                 st1 = st\<lparr>toiletMap := (toiletMap st)
                            (roomId \<mapsto> stateMap(targetUserId \<mapsto>
                               \<lparr>t_status = Allowed, t_start = Some (now e)\<rparr>))\<rparr>
             in (st1, broadcastRoom st1 (Some roomId) (OToilet roomId targetUserId Allowed (Some (now e)))
                      @ sendToUser st1 targetUserId (OToiletAllowed roomId (now e))))))"

text \<open>\<^verbatim>\<open>Math.round\<close> gives the nearest integer, a tie going up. The quotient
  \<^verbatim>\<open>ms / 10000\<close> is taken as the exact real number.\<close>

definition js_round :: "real \<Rightarrow> int" where
  "js_round x = \<lfloor>x + 1 / 2\<rfloor>"

text \<open>The \<^verbatim>\<open>durationSec\<close> of \<^verbatim>\<open>toiletBack\<close>, from \<^verbatim>\<open>Date.now()\<close> and the toilet
  entry of the user (\<^verbatim>\<open>state && state.start\<close>: a start of 0 is falsy).\<close>

definition durationSec_of :: "int \<Rightarrow> toilet option \<Rightarrow> int" where
  "durationSec_of n state =
     (case state of None \<Rightarrow> 0
      | Some t \<Rightarrow>
          (case t_start t of None \<Rightarrow> 0
           | Some start \<Rightarrow>
               if start = 0 then 0
               else (let ms = max 0 (n - start)
                     in max 0 (js_round (real_of_int ms / 10000) * 10))))"

definition handle_toiletBack ::
  "state \<Rightarrow> nat \<Rightarrow> uid \<Rightarrow> env \<Rightarrow> rid option \<Rightarrow> state \<times> delivery list" where
  "handle_toiletBack st i u e msg_roomId =
     (case or_else msg_roomId (ws_roomId (clients st ! i)) of None \<Rightarrow> (st, [])
      | Some roomId \<Rightarrow>
     (case rooms st roomId of None \<Rightarrow> (st, [])
      | Some room \<Rightarrow>
          (let durationSec = durationSec_of (now e) (getToiletState st roomId u);
               st1 = (case toiletMap st roomId of None \<Rightarrow> st
                      | Some m \<Rightarrow> st\<lparr>toiletMap := (toiletMap st)(roomId \<mapsto> m(u := None))\<rparr>);
               subject = str_or (r_subject room) ''default'';
               st2 = (case users st1 u of None \<Rightarrow> st1
                      | Some user \<Rightarrow>
                          (let sta = map_stats st1 u subject
                                       (\<lambda>s. s\<lparr>toiletSeconds := max 0 (toiletSeconds s + durationSec)\<rparr>)
                           in map_daily sta u subject (today e)
                                (\<lambda>d. d\<lparr>d_toiletSeconds := max 0 (d_toiletSeconds d + durationSec)\<rparr>)));
               current = get_counter st2 roomId u;
               st3 = set_counter st2 roomId u
                       (current\<lparr>c_toiletSeconds := max 0 (c_toiletSeconds current + durationSec)\<rparr>);
               out1 = broadcastRoom st3 (Some roomId) (OToiletBack roomId u durationSec);
               out2 = updatePresence st3 roomId;
               (st4, out3) = sendStats st3 roomId
           in (st4, out1 @ out2 @ out3))))"

subsection \<open>Polls\<close>

text \<open>The recount of \<^verbatim>\<open>pollVote\<close>: all counts to 0, then for every vote list and every
  id in it, the first option with that id (\<^verbatim>\<open>poll.options.find\<close>) gets one more.\<close>

fun bump_first :: "string \<Rightarrow> poll_option list \<Rightarrow> poll_option list" where
  "bump_first optId [] = []"
| "bump_first optId (opt # opts) =
     (if o_id opt = optId then opt\<lparr>o_count := o_count opt + 1\<rparr> # opts
      else opt # bump_first optId opts)"

definition recount :: "(uid \<times> string list) list \<Rightarrow> poll_option list \<Rightarrow> poll_option list" where
  "recount votes opts =
     fold (\<lambda>(u, vals) os. fold bump_first vals os) votes (map (\<lambda>opt. opt\<lparr>o_count := 0\<rparr>) opts)"

definition handle_pollVote ::
  "state \<Rightarrow> nat \<Rightarrow> uid \<Rightarrow> rid option \<Rightarrow> string list option \<Rightarrow> state \<times> delivery list" where
  "handle_pollVote st i u msg_roomId msg_options =
     (let roomId = or_else msg_roomId (ws_roomId (clients st ! i))
      in case pollsMap st roomId of
           Some (Some poll) \<Rightarrow>
             (case (case msg_options of None \<Rightarrow> [] | Some xs \<Rightarrow> xs) of
                [] \<Rightarrow> (st, [])
              | first # others \<Rightarrow>
                  (let allowed = (if p_multiple poll then first # others else [first]);
                       votes' = map_set u allowed (p_votes poll);
                       poll' = poll\<lparr>p_votes := votes', p_options := recount votes' (p_options poll)\<rparr>;
                       st1 = st\<lparr>pollsMap := (pollsMap st)(roomId \<mapsto> Some poll')\<rparr>
                   in (st1, broadcastPoll st1 roomId)))
         | _ \<Rightarrow> (st, []))"

text \<open>The poll object that \<^verbatim>\<open>pollCreate\<close> and \<^verbatim>\<open>pollTemplateActivate\<close> build from
  the poll id, the question, the option texts and the flag: option \<open>idx\<close> gets the id
  \<^verbatim>\<open>`opt-${idx}`\<close> and the count 0, and there are no votes.\<close>

definition digit_char :: "nat \<Rightarrow> char" where
  "digit_char d = ''0123456789'' ! d"

fun decimal :: "nat \<Rightarrow> string" where
  "decimal n = (if n < 10 then [digit_char n] else decimal (n div 10) @ [digit_char (n mod 10)])"

declare decimal.simps [simp del]

definition new_poll :: "string \<Rightarrow> string \<Rightarrow> string list \<Rightarrow> bool \<Rightarrow> poll" where
  "new_poll pid question texts multiple =
     \<lparr>p_id = pid, p_question = question,
      p_options = map (\<lambda>(idx, t). \<lparr>o_id = ''opt-'' @ decimal idx, o_text = t, o_count = 0\<rparr>)
                    (enumerate 0 texts),
      p_multiple = multiple, p_votes = []\<rparr>"

subsection \<open>rate and logDelete\<close>

definition ratingKeys :: "string list" where
  "ratingKeys = [''--'', ''-'', ''0'', ''+'', ''++'']"

text \<open>\<^verbatim>\<open>s.ratings[rating] = Math.max(0, (s.ratings[rating] || 0) + 1)\<close> throws a
  \<^verbatim>\<open>TypeError\<close> when \<^verbatim>\<open>s.ratings\<close> is undefined, before anything is changed.\<close>

definition handle_rate ::
  "state \<Rightarrow> nat \<Rightarrow> env \<Rightarrow> rid option \<Rightarrow> uid option \<Rightarrow> string option
   \<Rightarrow> error + state \<times> delivery list" where
  "handle_rate st i e msg_roomId msg_userId msg_rating =
     (case or_else msg_roomId (ws_roomId (clients st ! i)) of None \<Rightarrow> Inr (st, [])
      | Some roomId \<Rightarrow>
     (case msg_userId of None \<Rightarrow> Inr (st, [])
      | Some targetUserId \<Rightarrow>
     (case msg_rating of None \<Rightarrow> Inr (st, [])
      | Some rating \<Rightarrow>
          if rating \<notin> set ratingKeys \<or> roomId = [] \<or> targetUserId = [] then Inr (st, [])
          else
     (case rooms st roomId of None \<Rightarrow> Inr (st, [])
      | Some room \<Rightarrow>
          (let subject = str_or (r_subject room) ''default''
           in case (case users st targetUserId of None \<Rightarrow> Inr st
                    | Some targetUser \<Rightarrow>
                        (case ratings (get_stats st targetUser subject) of
                           None \<Rightarrow> Inl TypeError
                         | Some h \<Rightarrow>
                             Inr (map_stats st targetUserId subject
                                    (\<lambda>s. s\<lparr>ratings := Some (h(rating := max 0 (h rating + 1)))\<rparr>))))
              of Inl err \<Rightarrow> Inl err
               | Inr st1 \<Rightarrow>
                   (let (st2, out1) = appendLog st1 e roomId
                                        \<lparr>le_id = [], le_ts = now e, le_userId = targetUserId,
                                         le_action = ''rating'', le_rating = Some rating,
                                         le_selfCall = False\<rparr>;
                        (st3, out2) = sendStats st2 roomId
                    in Inr (st3, out1 @ out2)))))))"

text \<open>\<^verbatim>\<open>findIndex\<close> of the first entry with the id and \<^verbatim>\<open>splice(idx, 1)\<close>: the removed
  entry and the remaining log, or nothing when no entry has the id.\<close>

fun splice_entry :: "string \<Rightarrow> log_entry list \<Rightarrow> (log_entry \<times> log_entry list) option" where
  "splice_entry entryId [] = None"
| "splice_entry entryId (x # xs) =
     (if le_id x = entryId then Some (x, xs)
      else (case splice_entry entryId xs of None \<Rightarrow> None
            | Some (removed, ys) \<Rightarrow> Some (removed, x # ys)))"

text \<open>The \<^verbatim>\<open>logDelete\<close> block. Where the removed entry is a rating,
  \<^verbatim>\<open>s.ratings[removed.rating] = ...\<close> throws a \<^verbatim>\<open>TypeError\<close> when \<^verbatim>\<open>s.ratings\<close> is
  undefined; the entry has then left the log in memory, and neither the log nor the
  statistics have been sent.\<close>

definition handle_logDelete ::
  "state \<Rightarrow> nat \<Rightarrow> env \<Rightarrow> rid option \<Rightarrow> string option \<Rightarrow> error + state \<times> delivery list" where
  "handle_logDelete st i e msg_roomId msg_entryId =
     (case or_else msg_roomId (ws_roomId (clients st ! i)) of None \<Rightarrow> Inr (st, [])
      | Some roomId \<Rightarrow>
     (case msg_entryId of None \<Rightarrow> Inr (st, [])
      | Some entryId \<Rightarrow>
          if roomId = [] \<or> entryId = [] then Inr (st, [])
          else
     (case rooms st roomId of None \<Rightarrow> Inr (st, [])
      | Some room \<Rightarrow>
     (case logs st roomId of None \<Rightarrow> Inr (st, [])
      | Some entries \<Rightarrow>
     (case splice_entry entryId entries of None \<Rightarrow> Inr (st, [])
      | Some (removed, rest) \<Rightarrow>
          (let st1 = st\<lparr>logs := (logs st)(roomId \<mapsto> rest)\<rparr>;
               subject = str_or (r_subject room) ''default'';
               target = le_userId removed;
               st2 = (if target \<noteq> [] \<and> le_action removed = ''called''
                      then
                        (let sta = (case users st1 target of None \<Rightarrow> st1
                                    | Some user \<Rightarrow>
                                        (let stu = map_stats st1 target subject
                                                     (\<lambda>s. s\<lparr>calls := max 0 (calls s - 1)\<rparr>)
                                         in map_daily stu target subject (today e)
                                              (\<lambda>d. d\<lparr>d_calls := max 0 (d_calls d - 1)\<rparr>)));
                             current = get_counter sta roomId target
                         in set_counter sta roomId target
                              (current\<lparr>c_calls := max 0 (c_calls current - 1)\<rparr>))
                      else st1)
           in case (if target \<noteq> [] \<and> le_action removed = ''rating''
                    then
                      (case le_rating removed of None \<Rightarrow> Inr st2
                       | Some k \<Rightarrow>
                           if k = [] then Inr st2
                           else (case users st2 target of None \<Rightarrow> Inr st2
                                 | Some user \<Rightarrow>
                                     (case ratings (get_stats st2 user subject) of
                                        None \<Rightarrow> Inl TypeError
                                      | Some h \<Rightarrow>
                                          Inr (map_stats st2 target subject
                                                 (\<lambda>s. s\<lparr>ratings := Some (h(k := max 0 (h k - 1)))\<rparr>)))))
                    else Inr st2)
              of Inl err \<Rightarrow> Inl err
               | Inr st3 \<Rightarrow>
                   (let out1 = sendLogUpdates st3 roomId;
                        (st4, out2) = sendStats st3 roomId
                    in Inr (st4, out1 @ out2))))))))"

section \<open>The message callback\<close>

text \<open>The inbound messages that are modelled, with the fields the handlers read
  (\<^verbatim>\<open>msg.roomId\<close>, \<^verbatim>\<open>msg.userId\<close>, \<^verbatim>\<open>msg.options\<close>, \<^verbatim>\<open>msg.rating\<close>,
  \<^verbatim>\<open>msg.entryId\<close>).\<close>

datatype msg =
    Join "rid option"
  | Leave
  | Withdraw "rid option"
  | Ready "rid option"
  | PollVote "rid option" "string list option"
  | Toilet "rid option"
  | ToiletAllow "rid option" "uid option"
  | ToiletBack "rid option"
  | Rate "rid option" "uid option" "string option"
  | LogDelete "rid option" "string option"

text \<open>\<^verbatim>\<open>ws.on('message', ...)\<close> after \<^verbatim>\<open>initProfile\<close>: a socket with no user id, or
  with the id of no user, is ignored; then the first block whose condition on the type
  and on \<^verbatim>\<open>ws.role\<close> holds runs, and a message that no block takes changes nothing. The
  result is the exception when the block throws.\<close>

definition on_message_result ::
  "state \<Rightarrow> nat \<Rightarrow> env \<Rightarrow> msg \<Rightarrow> error + state \<times> delivery list" where
  "on_message_result st i e m =
     (if length (clients st) \<le> i then Inr (st, [])
      else
        (let ws = clients st ! i
         in case ws_userId ws of None \<Rightarrow> Inr (st, [])
            | Some u \<Rightarrow>
                if u = [] then Inr (st, [])
                else
                  (case users st u of None \<Rightarrow> Inr (st, [])
                   | Some user \<Rightarrow>
                       (case m of
                          Join r \<Rightarrow> Inr (handle_join st i u user r)
                        | Leave \<Rightarrow> Inr (handle_leave st i u)
                        | Withdraw r \<Rightarrow> Inr (handle_withdraw st i u e r)
                        | Ready r \<Rightarrow> Inr (handle_ready st i u user e r)
                        | PollVote r opts \<Rightarrow> Inr (handle_pollVote st i u r opts)
                        | Toilet r \<Rightarrow> Inr (handle_toilet st i u user r)
                        | ToiletAllow r t \<Rightarrow>
                            if ws_role ws = Some Teacher \<or> ws_role ws = Some Admin
                            then Inr (handle_toiletAllow st i e r t) else Inr (st, [])
                        | ToiletBack r \<Rightarrow> Inr (handle_toiletBack st i u e r)
                        | Rate r t k \<Rightarrow>
                            if ws_role ws = Some Teacher then handle_rate st i e r t k
                            else Inr (st, [])
                        | LogDelete r x \<Rightarrow>
                            if ws_role ws = Some Teacher \<or> ws_role ws = Some Admin
                            then handle_logDelete st i e r x else Inr (st, [])))))"

text \<open>The state and the deliveries when the callback returns. Nothing in the source
  catches an exception of the callback; where it throws, \<open>on_message\<close> is the state before
  the message with no delivery, and \<open>on_message_result\<close> tells the exception.\<close>

definition on_message :: "state \<Rightarrow> nat \<Rightarrow> env \<Rightarrow> msg \<Rightarrow> state \<times> delivery list" where
  "on_message st i e m = (case on_message_result st i e m of Inl err \<Rightarrow> (st, []) | Inr r \<Rightarrow> r)"

text \<open>A run of the server: each step is one message on one socket, with what the clock
  and the id generator give at that moment. The process does not outlive an exception of
  the callback, so a run ends with the message on which the callback throws.\<close>

fun run :: "state \<Rightarrow> (nat \<times> env \<times> msg) list \<Rightarrow> state" where
  "run st [] = st"
| "run st ((i, e, m) # ms) =
     (case on_message_result st i e m of Inl err \<Rightarrow> st | Inr r \<Rightarrow> run (fst r) ms)"

definition is_pollVote :: "msg \<Rightarrow> bool" where
  "is_pollVote m = (case m of PollVote r opts \<Rightarrow> True | _ \<Rightarrow> False)"

section \<open>Properties of polls\<close>

text \<open>How often an option id occurs in the recorded vote lists, and how many users have
  recorded a list that contains it.\<close>

definition occurrences :: "string \<Rightarrow> (uid \<times> string list) list \<Rightarrow> nat" where
  "occurrences optId votes = sum_list (map (\<lambda>(u, vals). count_list vals optId) votes)"

definition voters :: "string \<Rightarrow> (uid \<times> string list) list \<Rightarrow> nat" where
  "voters optId votes = length (filter (\<lambda>(u, vals). optId \<in> set vals) votes)"

text \<open>A poll as \<^verbatim>\<open>pollCreate\<close> and the votes leave it: option ids differ, the vote
  map has one list for a user, every count is the number of occurrences of the option's
  id in the vote lists, and a single-choice poll records lists of one element.\<close>

definition poll_ok :: "poll \<Rightarrow> bool" where
  "poll_ok p =
     (distinct (map o_id (p_options p)) \<and> distinct (map fst (p_votes p))
      \<and> list_all (\<lambda>opt. o_count opt = int (occurrences (o_id opt) (p_votes p))) (p_options p)
      \<and> (p_multiple p \<or> list_all (\<lambda>(u, vals). length vals = 1) (p_votes p)))"

definition polls_ok :: "state \<Rightarrow> bool" where
  "polls_ok st = (\<forall>r p. pollsMap st r = Some (Some p) \<longrightarrow> poll_ok p)"

section \<open>A classroom for the examples\<close>

definition ex_users :: "uid \<rightharpoonup> user" where
  "ex_users =
     [''t1'' \<mapsto> \<lparr>u_role = Teacher, u_name = ''Frau T'', u_className = [], u_stats = Map.empty\<rparr>,
      ''a1'' \<mapsto> \<lparr>u_role = Admin, u_name = ''Root'', u_className = [], u_stats = Map.empty\<rparr>,
      ''s1'' \<mapsto> \<lparr>u_role = Student, u_name = ''Anna A'', u_className = ''7a'',
                 u_stats = [''Math'' \<mapsto>
                   \<lparr>signals = 1, calls = 1, ratings = Some (\<lambda>k. if k = ''+'' then 1 else 0),
                    toiletSeconds = 0,
                    daily = [''2024-05-01'' \<mapsto> \<lparr>d_signals = 1, d_calls = 1, d_toiletSeconds = 0\<rparr>]\<rparr>]\<rparr>,
      ''s2'' \<mapsto> \<lparr>u_role = Student, u_name = ''Ben B'', u_className = ''7b'',
                 u_stats = [''Math'' \<mapsto>
                   \<lparr>signals = 0, calls = 1, ratings = Some (\<lambda>k. 0), toiletSeconds = 0,
                    daily = [''2024-05-01'' \<mapsto> \<lparr>d_signals = 0, d_calls = 1, d_toiletSeconds = 0\<rparr>]\<rparr>]\<rparr>,
      ''s3'' \<mapsto> \<lparr>u_role = Student, u_name = ''Cem C'', u_className = [], u_stats = Map.empty\<rparr>]"

definition ex_rooms :: "rid \<rightharpoonup> room" where
  "ex_rooms =
     [''R1'' \<mapsto> \<lparr>r_subject = ''Math'', r_className = ''7a'', r_active = True, r_allowSelfCall = False\<rparr>,
      ''R2'' \<mapsto> \<lparr>r_subject = ''Math'', r_className = ''7b'', r_active = True, r_allowSelfCall = False\<rparr>,
      ''R3'' \<mapsto> \<lparr>r_subject = ''Bio'', r_className = ''7a'', r_active = True, r_allowSelfCall = False\<rparr>,
      ''R4'' \<mapsto> \<lparr>r_subject = ''constructor'', r_className = ''7a'', r_active = True,
                 r_allowSelfCall = False\<rparr>]"

definition ex_log :: "log_entry list" where
  "ex_log =
     [\<lparr>le_id = ''log-1'', le_ts = 1000, le_userId = ''s1'', le_action = ''called'',
       le_rating = None, le_selfCall = False\<rparr>,
      \<lparr>le_id = ''log-2'', le_ts = 2000, le_userId = ''s1'', le_action = ''rating'',
       le_rating = Some ''+'', le_selfCall = False\<rparr>,
      \<lparr>le_id = ''log-3'', le_ts = 3000, le_userId = ''s2'', le_action = ''called'',
       le_rating = None, le_selfCall = False\<rparr>]"

definition ex_poll :: poll where
  "ex_poll =
     \<lparr>p_id = ''poll-1'', p_question = ''Ready?'',
      p_options = [\<lparr>o_id = ''opt-0'', o_text = ''yes'', o_count = 0\<rparr>,
                   \<lparr>o_id = ''opt-1'', o_text = ''no'', o_count = 0\<rparr>],
      p_multiple = True, p_votes = []\<rparr>"

definition ex_poll2 :: poll where
  "ex_poll2 =
     \<lparr>p_id = ''poll-2'', p_question = ''Done?'',
      p_options = [\<lparr>o_id = ''opt-0'', o_text = ''yes'', o_count = 0\<rparr>,
                   \<lparr>o_id = ''opt-1'', o_text = ''no'', o_count = 0\<rparr>],
      p_multiple = False, p_votes = []\<rparr>"

definition ex_clients :: "socket list" where
  "ex_clients =
     [\<lparr>ws_userId = Some ''t1'', ws_role = Some Teacher, ws_roomId = Some ''R1'', ws_open = True\<rparr>,
      \<lparr>ws_userId = Some ''s1'', ws_role = Some Student, ws_roomId = Some ''R1'', ws_open = True\<rparr>,
      \<lparr>ws_userId = Some ''a1'', ws_role = Some Admin, ws_roomId = Some ''R1'', ws_open = True\<rparr>,
      \<lparr>ws_userId = Some ''s2'', ws_role = Some Student, ws_roomId = None, ws_open = True\<rparr>,
      \<lparr>ws_userId = Some ''s3'', ws_role = Some Student, ws_roomId = None, ws_open = True\<rparr>]"

text \<open>Room R1 is running: the teacher, the student s1 and the admin have joined it. s1
  has raised the hand once, has been called and rated \<^verbatim>\<open>+\<close>, s2 has been called by the
  teacher, and s1 is away with the teacher's permission since 5000 ms. R1 has a
  multiple-choice poll and R2 a single-choice poll, both without votes. The teacher has
  given room R4 the subject \<^verbatim>\<open>constructor\<close>, and nothing has been written on an
  inherited value.\<close>

definition ex_state :: state where
  "ex_state =
     \<lparr>users = ex_users, rooms = ex_rooms, logs = [''R1'' \<mapsto> ex_log],
      userSockets = [''t1'' \<mapsto> [0], ''s1'' \<mapsto> [1], ''a1'' \<mapsto> [2], ''s2'' \<mapsto> [3], ''s3'' \<mapsto> [4]],
      roomMembers = [''R1'' \<mapsto> [''t1'', ''s1'', ''a1''], ''R2'' \<mapsto> [], ''R3'' \<mapsto> [], ''R4'' \<mapsto> []],
      readyMap = [''R1'' \<mapsto> [], ''R2'' \<mapsto> [], ''R3'' \<mapsto> [], ''R4'' \<mapsto> []],
      roomCounters = [''R1'' \<mapsto> [''s1'' \<mapsto> \<lparr>c_signals = 1, c_calls = 1, c_toiletSeconds = 0\<rparr>,
                                 ''s2'' \<mapsto> \<lparr>c_signals = 0, c_calls = 1, c_toiletSeconds = 0\<rparr>],
                      ''R2'' \<mapsto> Map.empty, ''R3'' \<mapsto> Map.empty, ''R4'' \<mapsto> Map.empty],
      toiletMap = [''R1'' \<mapsto> [''s1'' \<mapsto> \<lparr>t_status = Allowed, t_start = Some 5000\<rparr>]],
      importantMap = [''R1'' \<mapsto> []],
      questionsMap = [''R1'' \<mapsto> []],
      pollsMap = [Some ''R1'' \<mapsto> Some ex_poll, Some ''R2'' \<mapsto> Some ex_poll2],
      thoughtsMap = [''R1'' \<mapsto> \<lparr>th_active = False, th_entries = []\<rparr>],
      clients = ex_clients,
      inheritedStats = (\<lambda>name. \<lparr>signals = 0, calls = 0, ratings = None, toiletSeconds = 0,
                                daily = Map.empty\<rparr>)\<rparr>"

definition ex_env :: env where
  "ex_env = \<lparr>now = 100000, today = ''2024-05-01'', fresh_id = ''log-9''\<rparr>"


text \<open>Votes: s1 for the first option of the poll of R1; s2 (whose socket is in no room and
  names the room) for the second option and for an id that the poll does not have; and s2
  with two options in the single-choice poll of R2.\<close>

definition ex_votes :: "(nat \<times> env \<times> msg) list" where
  "ex_votes =
     [(1, ex_env, PollVote None (Some [''opt-0''])),
      (3, ex_env, PollVote (Some ''R1'') (Some [''opt-1'', ''opt-7''])),
      (3, ex_env, PollVote (Some ''R2'') (Some [''opt-1'', ''opt-0'']))]"

section \<open>Reading the state after an update\<close>

text \<open>\<^verbatim>\<open>sendStats\<close> creates missing statistics records and changes nothing that is read
  from the state; the counters of a room and the statistics of a user after the updates
  of the handlers.\<close>

lemma get_stats_ensureStats: "get_stats st (ensureStats x s) s' = get_stats st x s'"
  by (simp add: get_stats_def ensureStats_def)

lemma inherits_ensureStats: "inherits (ensureStats x s) s' = inherits x s'"
  by (auto simp add: inherits_def ensureStats_def)

lemma ensureStats_idem: "ensureStats (ensureStats x s) s = ensureStats x s"
  by (simp add: ensureStats_def)

lemma ensure_all_cases:
  "ensure_all s us m u = m u \<or> (\<exists>x. m u = Some x \<and> ensure_all s us m u = Some (ensureStats x s))"
proof (induction us arbitrary: m)
  case Nil
  then show ?case by (simp add: ensure_all_def)
next
  case (Cons a us)
  let ?m' = "(case m a of None \<Rightarrow> m | Some x \<Rightarrow> m(a \<mapsto> ensureStats x s))"
  have step: "ensure_all s (a # us) m = ensure_all s us ?m'"
    by (simp add: ensure_all_def)
  from Cons.IH [of ?m'] show ?case
    unfolding step by (auto simp: ensureStats_idem split: option.splits if_splits)
qed

lemma sendStats_users:
  "users (fst (sendStats st r)) u = users st u
   \<or> (\<exists>x s. users st u = Some x \<and> users (fst (sendStats st r)) u = Some (ensureStats x s))"
  using ensure_all_cases [of _ _ "users st" u]
  by (auto simp: sendStats_def Let_def split: option.splits)

lemma sendStats_fields:
  "rooms (fst (sendStats st r)) = rooms st"
  "logs (fst (sendStats st r)) = logs st"
  "userSockets (fst (sendStats st r)) = userSockets st"
  "roomMembers (fst (sendStats st r)) = roomMembers st"
  "readyMap (fst (sendStats st r)) = readyMap st"
  "roomCounters (fst (sendStats st r)) = roomCounters st"
  "toiletMap (fst (sendStats st r)) = toiletMap st"
  "importantMap (fst (sendStats st r)) = importantMap st"
  "questionsMap (fst (sendStats st r)) = questionsMap st"
  "pollsMap (fst (sendStats st r)) = pollsMap st"
  "thoughtsMap (fst (sendStats st r)) = thoughtsMap st"
  "clients (fst (sendStats st r)) = clients st"
  "inheritedStats (fst (sendStats st r)) = inheritedStats st"
  by (simp_all add: sendStats_def Let_def split: option.splits)

lemma get_stats_frame:
  "inheritedStats st' = inheritedStats st \<Longrightarrow> get_stats st' x s = get_stats st x s"
  by (simp add: get_stats_def split: option.splits)

lemma stats_of_sendStats: "stats_of (fst (sendStats st r)) u s = stats_of st u s"
  using sendStats_users [of st r u]
    get_stats_frame [of "fst (sendStats st r)" st, OF sendStats_fields(13)]
  by (auto simp: stats_of_def get_stats_ensureStats split: option.splits)

lemma get_counter_sendStats: "get_counter (fst (sendStats st r)) r' u = get_counter st r' u"
  by (simp add: get_counter_def sendStats_fields)

lemma get_counter_set_counter:
  "get_counter (set_counter st r u c) r' u' = (if r' = r \<and> u' = u then c else get_counter st r' u')"
  by (auto simp: get_counter_def set_counter_def split: option.splits)

lemma get_counter_frame:
  "roomCounters st' = roomCounters st \<Longrightarrow> get_counter st' r u = get_counter st r u"
  by (simp add: get_counter_def)

lemma stats_of_frame:
  "users st' u = users st u \<Longrightarrow> inheritedStats st' = inheritedStats st
   \<Longrightarrow> stats_of st' u s = stats_of st u s"
  by (simp add: stats_of_def get_stats_def split: option.splits)

lemma set_counter_fields:
  "users (set_counter st r u c) = users st"
  "rooms (set_counter st r u c) = rooms st"
  "logs (set_counter st r u c) = logs st"
  "userSockets (set_counter st r u c) = userSockets st"
  "roomMembers (set_counter st r u c) = roomMembers st"
  "readyMap (set_counter st r u c) = readyMap st"
  "toiletMap (set_counter st r u c) = toiletMap st"
  "importantMap (set_counter st r u c) = importantMap st"
  "pollsMap (set_counter st r u c) = pollsMap st"
  "clients (set_counter st r u c) = clients st"
  "inheritedStats (set_counter st r u c) = inheritedStats st"
  "roomCounters (set_counter st r u c) r \<noteq> None"
  by (simp_all add: set_counter_def)

lemma getters_set_counter:
  "stats_of (set_counter st r u c) u' s = stats_of st u' s"
  "inherits_at (set_counter st r u c) u' s = inherits_at st u' s"
  "getToiletState (set_counter st r u c) r' u' = getToiletState st r' u'"
  by (simp_all add: stats_of_def get_stats_def inherits_at_def getToiletState_def set_counter_def
      split: option.splits)

lemma get_daily_upd:
  "get_daily (s\<lparr>daily := m\<rparr>) d = (case m d of None \<Rightarrow> new_daily | Some v \<Rightarrow> v)"
  "get_daily (s\<lparr>signals := a\<rparr>) d = get_daily s d"
  "get_daily (s\<lparr>calls := a\<rparr>) d = get_daily s d"
  "get_daily (s\<lparr>ratings := b\<rparr>) d = get_daily s d"
  "get_daily (s\<lparr>toiletSeconds := a\<rparr>) d = get_daily s d"
  by (simp_all add: get_daily_def)

lemma get_daily_frame: "daily s' = daily s \<Longrightarrow> get_daily s' d = get_daily s d"
  by (simp add: get_daily_def)

lemma stats_of_Some: "users st u = Some x \<Longrightarrow> stats_of st u s = get_stats st x s"
  by (simp add: stats_of_def)

lemma get_counter_upd:
  "get_counter (st\<lparr>users := x_users\<rparr>) r u = get_counter st r u"
  "get_counter (st\<lparr>rooms := x_rooms\<rparr>) r u = get_counter st r u"
  "get_counter (st\<lparr>logs := x_logs\<rparr>) r u = get_counter st r u"
  "get_counter (st\<lparr>userSockets := x_userSockets\<rparr>) r u = get_counter st r u"
  "get_counter (st\<lparr>roomMembers := x_roomMembers\<rparr>) r u = get_counter st r u"
  "get_counter (st\<lparr>readyMap := x_readyMap\<rparr>) r u = get_counter st r u"
  "get_counter (st\<lparr>toiletMap := x_toiletMap\<rparr>) r u = get_counter st r u"
  "get_counter (st\<lparr>importantMap := x_importantMap\<rparr>) r u = get_counter st r u"
  "get_counter (st\<lparr>questionsMap := x_questionsMap\<rparr>) r u = get_counter st r u"
  "get_counter (st\<lparr>pollsMap := x_pollsMap\<rparr>) r u = get_counter st r u"
  "get_counter (st\<lparr>thoughtsMap := x_thoughtsMap\<rparr>) r u = get_counter st r u"
  "get_counter (st\<lparr>clients := x_clients\<rparr>) r u = get_counter st r u"
  "get_counter (st\<lparr>inheritedStats := x_inheritedStats\<rparr>) r u = get_counter st r u"
  by (simp_all add: get_counter_def)

lemma stats_of_upd:
  "stats_of (st\<lparr>rooms := x_rooms\<rparr>) u s = stats_of st u s"
  "stats_of (st\<lparr>logs := x_logs\<rparr>) u s = stats_of st u s"
  "stats_of (st\<lparr>userSockets := x_userSockets\<rparr>) u s = stats_of st u s"
  "stats_of (st\<lparr>roomMembers := x_roomMembers\<rparr>) u s = stats_of st u s"
  "stats_of (st\<lparr>readyMap := x_readyMap\<rparr>) u s = stats_of st u s"
  "stats_of (st\<lparr>roomCounters := x_roomCounters\<rparr>) u s = stats_of st u s"
  "stats_of (st\<lparr>toiletMap := x_toiletMap\<rparr>) u s = stats_of st u s"
  "stats_of (st\<lparr>importantMap := x_importantMap\<rparr>) u s = stats_of st u s"
  "stats_of (st\<lparr>questionsMap := x_questionsMap\<rparr>) u s = stats_of st u s"
  "stats_of (st\<lparr>pollsMap := x_pollsMap\<rparr>) u s = stats_of st u s"
  "stats_of (st\<lparr>thoughtsMap := x_thoughtsMap\<rparr>) u s = stats_of st u s"
  "stats_of (st\<lparr>clients := x_clients\<rparr>) u s = stats_of st u s"
  by (simp_all add: stats_of_def get_stats_def split: option.splits)

lemma inherits_at_upd:
  "inherits_at (st\<lparr>rooms := x_rooms\<rparr>) u s = inherits_at st u s"
  "inherits_at (st\<lparr>logs := x_logs\<rparr>) u s = inherits_at st u s"
  "inherits_at (st\<lparr>userSockets := x_userSockets\<rparr>) u s = inherits_at st u s"
  "inherits_at (st\<lparr>roomMembers := x_roomMembers\<rparr>) u s = inherits_at st u s"
  "inherits_at (st\<lparr>readyMap := x_readyMap\<rparr>) u s = inherits_at st u s"
  "inherits_at (st\<lparr>roomCounters := x_roomCounters\<rparr>) u s = inherits_at st u s"
  "inherits_at (st\<lparr>toiletMap := x_toiletMap\<rparr>) u s = inherits_at st u s"
  "inherits_at (st\<lparr>importantMap := x_importantMap\<rparr>) u s = inherits_at st u s"
  "inherits_at (st\<lparr>questionsMap := x_questionsMap\<rparr>) u s = inherits_at st u s"
  "inherits_at (st\<lparr>pollsMap := x_pollsMap\<rparr>) u s = inherits_at st u s"
  "inherits_at (st\<lparr>thoughtsMap := x_thoughtsMap\<rparr>) u s = inherits_at st u s"
  "inherits_at (st\<lparr>clients := x_clients\<rparr>) u s = inherits_at st u s"
  "inherits_at (st\<lparr>inheritedStats := x_inheritedStats\<rparr>) u s = inherits_at st u s"
  by (simp_all add: inherits_at_def)

lemma getToiletState_upd:
  "getToiletState (st\<lparr>users := x_users\<rparr>) r u = getToiletState st r u"
  "getToiletState (st\<lparr>rooms := x_rooms\<rparr>) r u = getToiletState st r u"
  "getToiletState (st\<lparr>logs := x_logs\<rparr>) r u = getToiletState st r u"
  "getToiletState (st\<lparr>userSockets := x_userSockets\<rparr>) r u = getToiletState st r u"
  "getToiletState (st\<lparr>roomMembers := x_roomMembers\<rparr>) r u = getToiletState st r u"
  "getToiletState (st\<lparr>readyMap := x_readyMap\<rparr>) r u = getToiletState st r u"
  "getToiletState (st\<lparr>roomCounters := x_roomCounters\<rparr>) r u = getToiletState st r u"
  "getToiletState (st\<lparr>importantMap := x_importantMap\<rparr>) r u = getToiletState st r u"
  "getToiletState (st\<lparr>questionsMap := x_questionsMap\<rparr>) r u = getToiletState st r u"
  "getToiletState (st\<lparr>pollsMap := x_pollsMap\<rparr>) r u = getToiletState st r u"
  "getToiletState (st\<lparr>thoughtsMap := x_thoughtsMap\<rparr>) r u = getToiletState st r u"
  "getToiletState (st\<lparr>clients := x_clients\<rparr>) r u = getToiletState st r u"
  "getToiletState (st\<lparr>inheritedStats := x_inheritedStats\<rparr>) r u = getToiletState st r u"
  by (simp_all add: getToiletState_def)

text \<open>An update of the statistics of user \<open>u\<close> for a subject: the other fields of the
  state, the users there are, who inherits, and the statistics read afterwards. What is
  read from an inherited value has no \<^verbatim>\<open>ratings\<close>, whatever the update made of them.\<close>

lemma map_stats_fields:
  "rooms (map_stats st u s f) = rooms st"
  "logs (map_stats st u s f) = logs st"
  "userSockets (map_stats st u s f) = userSockets st"
  "roomMembers (map_stats st u s f) = roomMembers st"
  "readyMap (map_stats st u s f) = readyMap st"
  "roomCounters (map_stats st u s f) = roomCounters st"
  "toiletMap (map_stats st u s f) = toiletMap st"
  "importantMap (map_stats st u s f) = importantMap st"
  "questionsMap (map_stats st u s f) = questionsMap st"
  "pollsMap (map_stats st u s f) = pollsMap st"
  "thoughtsMap (map_stats st u s f) = thoughtsMap st"
  "clients (map_stats st u s f) = clients st"
  by (simp_all add: map_stats_def put_stats_def split: option.splits)

lemma getters_map_stats:
  "get_counter (map_stats st u s f) r u' = get_counter st r u'"
  "getToiletState (map_stats st u s f) r u' = getToiletState st r u'"
  by (simp_all add: get_counter_def getToiletState_def map_stats_fields)

lemma users_map_stats_None: "users (map_stats st u s f) u' = None \<longleftrightarrow> users st u' = None"
  by (simp add: map_stats_def put_stats_def split: option.splits)

lemma inherits_at_map_stats: "inherits_at (map_stats st u s f) u' s' = inherits_at st u' s'"
  by (auto simp add: inherits_at_def inherits_def map_stats_def put_stats_def split: option.splits)

lemma stats_of_map_stats:
  assumes "users st u \<noteq> None"
  shows "stats_of (map_stats st u s f) u s' =
           (if s' = s
            then if inherits_at st u s then (f (stats_of st u s))\<lparr>ratings := None\<rparr>
                 else f (stats_of st u s)
            else stats_of st u s')"
  using assms
  by (auto simp add: stats_of_def get_stats_def inherits_at_def inherits_def map_stats_def
      put_stats_def split: option.splits)


lemmas effect_simps = getters_set_counter get_counter_upd stats_of_upd inherits_at_upd
  getToiletState_upd Let_def split_def get_counter_sendStats stats_of_sendStats sendStats_fields
  get_counter_set_counter set_counter_fields map_daily_def map_stats_fields getters_map_stats
  users_map_stats_None inherits_at_map_stats stats_of_map_stats get_daily_upd

lemma set_room_fields:
  "users (set_room st i r) = users st"
  "rooms (set_room st i r) = rooms st"
  "roomMembers (set_room st i r) = roomMembers st"
  "readyMap (set_room st i r) = readyMap st"
  "roomCounters (set_room st i r) = roomCounters st"
  "toiletMap (set_room st i r) = toiletMap st"
  "importantMap (set_room st i r) = importantMap st"
  "logs (set_room st i r) = logs st"
  "pollsMap (set_room st i r) = pollsMap st"
  "length (clients (set_room st i r)) = length (clients st)"
  "stats_of (set_room st i r) u s = stats_of st u s"
  "inherits_at (set_room st i r) u s = inherits_at st u s"
  "get_counter (set_room st i r) r' u = get_counter st r' u"
  "getToiletState (set_room st i r) r' u = getToiletState st r' u"
  by (simp_all add: set_room_def stats_of_def get_stats_def inherits_at_def get_counter_def
      getToiletState_def split: option.splits)

lemma set_room_client:
  "i < length (clients st) \<Longrightarrow> clients (set_room st i r) ! i = (clients st ! i)\<lparr>ws_roomId := r\<rparr>"
  by (simp add: set_room_def)

lemma add_in_Some: "add_in m k x k \<noteq> None"
  by (simp add: add_in_def split: option.splits)

lemma sendStats_users_None: "users (fst (sendStats st r)) u = None \<longleftrightarrow> users st u = None"
  using sendStats_users [of st r u] by auto

lemma has_in_delete_in:
  "has_in (delete_in m k x) k' y \<longleftrightarrow> has_in m k' y \<and> \<not> (k' = k \<and> y = x)"
  by (auto simp: has_in_def delete_in_def set_delete_def split: option.splits)



text \<open>The callback on the socket of a known user. Only \<^verbatim>\<open>rate\<close> and \<^verbatim>\<open>logDelete\<close> can
  throw.\<close>

lemma on_message_result_user:
  assumes "i < length (clients st)" and "ws_userId (clients st ! i) = Some u" and "u \<noteq> []"
    and "users st u = Some user"
  shows "on_message_result st i e m =
     (case m of
        Join r \<Rightarrow> Inr (handle_join st i u user r)
      | Leave \<Rightarrow> Inr (handle_leave st i u)
      | Withdraw r \<Rightarrow> Inr (handle_withdraw st i u e r)
      | Ready r \<Rightarrow> Inr (handle_ready st i u user e r)
      | PollVote r opts \<Rightarrow> Inr (handle_pollVote st i u r opts)
      | Toilet r \<Rightarrow> Inr (handle_toilet st i u user r)
      | ToiletAllow r t \<Rightarrow>
          if ws_role (clients st ! i) = Some Teacher \<or> ws_role (clients st ! i) = Some Admin
          then Inr (handle_toiletAllow st i e r t) else Inr (st, [])
      | ToiletBack r \<Rightarrow> Inr (handle_toiletBack st i u e r)
      | Rate r t k \<Rightarrow>
          if ws_role (clients st ! i) = Some Teacher then handle_rate st i e r t k
          else Inr (st, [])
      | LogDelete r x \<Rightarrow>
          if ws_role (clients st ! i) = Some Teacher \<or> ws_role (clients st ! i) = Some Admin
          then handle_logDelete st i e r x else Inr (st, []))"
  using assms by (simp add: on_message_result_def Let_def)

lemma on_message_user:
  assumes "i < length (clients st)" and "ws_userId (clients st ! i) = Some u" and "u \<noteq> []"
    and "users st u = Some user"
  shows "on_message st i e m =
     (case m of
        Join r \<Rightarrow> handle_join st i u user r
      | Leave \<Rightarrow> handle_leave st i u
      | Withdraw r \<Rightarrow> handle_withdraw st i u e r
      | Ready r \<Rightarrow> handle_ready st i u user e r
      | PollVote r opts \<Rightarrow> handle_pollVote st i u r opts
      | Toilet r \<Rightarrow> handle_toilet st i u user r
      | ToiletAllow r t \<Rightarrow>
          if ws_role (clients st ! i) = Some Teacher \<or> ws_role (clients st ! i) = Some Admin
          then handle_toiletAllow st i e r t else (st, [])
      | ToiletBack r \<Rightarrow> handle_toiletBack st i u e r
      | Rate r t k \<Rightarrow>
          if ws_role (clients st ! i) = Some Teacher
          then (case handle_rate st i e r t k of Inl err \<Rightarrow> (st, []) | Inr x \<Rightarrow> x)
          else (st, [])
      | LogDelete r x \<Rightarrow>
          if ws_role (clients st ! i) = Some Teacher \<or> ws_role (clients st ! i) = Some Admin
          then (case handle_logDelete st i e r x of Inl err \<Rightarrow> (st, []) | Inr x \<Rightarrow> x)
          else (st, []))"
  unfolding on_message_def on_message_result_user [OF assms]
  by (simp split: msg.splits)

lemma on_message_result_pollVote:
  "is_pollVote m \<Longrightarrow> on_message_result st i e m = Inr (on_message st i e m)"
  by (cases m)
     (simp_all add: on_message_def on_message_result_def is_pollVote_def Let_def split: option.splits)

text \<open>The definitions that a concrete run unfolds.\<close>

lemmas ex_defs = ex_state_def ex_users_def ex_rooms_def ex_log_def ex_poll_def ex_poll2_def
  ex_clients_def ex_env_def

lemmas js_defs = truthy_def or_else_def str_or_def set_add_def set_delete_def delete_in_def add_in_def
  has_in_def

lemmas stat_defs = new_stats_def new_daily_def new_counter_def objectPrototypeNames_def
  inherits_def get_stats_def ensureStats_def get_daily_def put_stats_def map_stats_def
  map_daily_def get_counter_def set_counter_def getToiletState_def isImportant_def
  resetReady_def stats_of_def

lemmas view_defs = room_sockets_def broadcastRoom_def sendToUser_def presence_of_def updatePresence_def
  log_visible_def log_entry_view_def log_projection_def sendLogUpdates_def appendLog_def
  stats_members_def ensure_all_def stats_item_of_def sendStats_def sendRoster_def sendRoomSettings_def
  broadcastQuestions_def broadcastPoll_def

lemmas handler_defs = on_message_def on_message_result_def set_room_def class_mismatch_def
  leave_previous_def init_containers_def handle_join_def handle_leave_def handle_withdraw_def
  handle_ready_def handle_toilet_def handle_toiletAllow_def handle_toiletBack_def
  handle_pollVote_def handle_rate_def handle_logDelete_def durationSec_of_def js_round_def
  recount_def ratingKeys_def

lemmas run_defs = ex_defs js_defs stat_defs view_defs handler_defs Let_def

section \<open>The duration of a toilet break\<close>

lemma js_round_nearest:
  "js_round x = k \<longleftrightarrow> real_of_int k - 1 / 2 \<le> x \<and> x < real_of_int k + 1 / 2"
  unfolding js_round_def by linarith

lemma durationSec_nearest:
  assumes "t_start t = Some start" and "start \<noteq> 0"
  shows "\<exists>k. durationSec_of n (Some t) = 10 * k
             \<and> 10000 * k - 5000 \<le> max 0 (n - start) \<and> max 0 (n - start) < 10000 * k + 5000"
proof -
  define ms where "ms = max 0 (n - start)"
  define k where "k = js_round (real_of_int ms / 10000)"
  have ms0: "0 \<le> ms" by (simp add: ms_def)
  have "real_of_int k - 1 / 2 \<le> real_of_int ms / 10000 \<and> real_of_int ms / 10000 < real_of_int k + 1 / 2"
    using js_round_nearest [of "real_of_int ms / 10000" k] by (simp add: k_def)
  then have "real_of_int (10000 * k - 5000) \<le> real_of_int ms" and "real_of_int ms < real_of_int (10000 * k + 5000)"
    by (simp_all add: field_simps)
  then have b: "10000 * k - 5000 \<le> ms" "ms < 10000 * k + 5000"
    by linarith+
  from b(2) ms0 have "0 \<le> k" by linarith
  then have "durationSec_of n (Some t) = 10 * k"
    using assms by (simp add: durationSec_of_def Let_def k_def ms_def)
  with b show ?thesis unfolding ms_def by blast
qed

lemma durationSec_nonneg: "0 \<le> durationSec_of n state"
  by (simp add: durationSec_of_def Let_def split: option.splits)

lemma handle_toiletBack_effect:
  fixes st i u e r roomId room user
  assumes "or_else r (ws_roomId (clients st ! i)) = Some roomId"
    and "rooms st roomId = Some room"
    and "users st u = Some user"
  defines "d \<equiv> durationSec_of (now e) (getToiletState st roomId u)"
  defines "subject \<equiv> str_or (r_subject room) ''default''"
  defines "st' \<equiv> fst (handle_toiletBack st i u e r)"
  shows "c_toiletSeconds (get_counter st' roomId u) = max 0 (c_toiletSeconds (get_counter st roomId u) + d)"
    and "toiletSeconds (stats_of st' u subject) = max 0 (toiletSeconds (stats_of st u subject) + d)"
    and "d_toiletSeconds (get_daily (stats_of st' u subject) (today e))
         = max 0 (d_toiletSeconds (get_daily (stats_of st u subject) (today e)) + d)"
    and "getToiletState st' roomId u = None"
    and "set (broadcastRoom st' (Some roomId) (OToiletBack roomId u d)) \<subseteq> set (snd (handle_toiletBack st i u e r))"
proof -
  show "c_toiletSeconds (get_counter st' roomId u) = max 0 (c_toiletSeconds (get_counter st roomId u) + d)"
    using assms(1-3) unfolding d_def subject_def st'_def
    by (simp add: handle_toiletBack_def effect_simps split: option.splits)
  show "toiletSeconds (stats_of st' u subject) = max 0 (toiletSeconds (stats_of st u subject) + d)"
    using assms(1-3) unfolding d_def subject_def st'_def
    by (simp add: handle_toiletBack_def effect_simps split: option.splits)
  show "d_toiletSeconds (get_daily (stats_of st' u subject) (today e))
         = max 0 (d_toiletSeconds (get_daily (stats_of st u subject) (today e)) + d)"
    using assms(1-3) unfolding d_def subject_def st'_def
    by (simp add: handle_toiletBack_def effect_simps split: option.splits)
  show "getToiletState st' roomId u = None"
    using assms(1-3) unfolding d_def subject_def st'_def
    by (simp add: handle_toiletBack_def effect_simps getToiletState_def split: option.splits)
  show "set (broadcastRoom st' (Some roomId) (OToiletBack roomId u d)) \<subseteq> set (snd (handle_toiletBack st i u e r))"
    using assms(1-3) unfolding d_def subject_def st'_def
    by (auto simp add: handle_toiletBack_def effect_simps broadcastRoom_def room_sockets_def set_counter_def split: option.splits)
qed


text \<open>
  Claim C6. When a user with a recorded (non-zero) start timestamp sends \<^verbatim>\<open>toiletBack\<close>
  in an existing room, the recorded duration \<open>d\<close> is ten times the integer nearest to the
  elapsed milliseconds divided by 10000, a tie going up: \<open>d = 10 * k\<close> with
  \<open>k - 1/2 \<le> ms / 10000 < k + 1/2\<close>, where \<open>ms\<close> is the elapsed time
  \<^verbatim>\<open>Math.max(0, now - start)\<close>. It is never negative, an elapsed time of 95000 ms records
  100 seconds, and \<open>d\<close> is what is added to the session counter of the room and to the
  cumulative and daily statistics, and what is announced to the room.
\<close>

theorem toiletBack_duration_rounds:
  fixes st i u user e r roomId room t start
  defines "d \<equiv> durationSec_of (now e) (Some t)"
  defines "st' \<equiv> fst (on_message st i e (ToiletBack r))"
  defines "subject \<equiv> str_or (r_subject room) ''default''"
  assumes "i < length (clients st)" and "ws_userId (clients st ! i) = Some u" and "u \<noteq> []"
    and "users st u = Some user"
    and "or_else r (ws_roomId (clients st ! i)) = Some roomId" and "rooms st roomId = Some room"
    and "getToiletState st roomId u = Some t" and "t_start t = Some start" and "start \<noteq> 0"
  shows "(\<exists>k. d = 10 * k \<and> 10000 * k - 5000 \<le> max 0 (now e - start)
              \<and> max 0 (now e - start) < 10000 * k + 5000)
       \<and> 0 \<le> d
       \<and> (now e - start = 95000 \<longrightarrow> d = 100)
       \<and> c_toiletSeconds (get_counter st' roomId u) = max 0 (c_toiletSeconds (get_counter st roomId u) + d)
       \<and> toiletSeconds (stats_of st' u subject) = max 0 (toiletSeconds (stats_of st u subject) + d)
       \<and> d_toiletSeconds (get_daily (stats_of st' u subject) (today e))
           = max 0 (d_toiletSeconds (get_daily (stats_of st u subject) (today e)) + d)
       \<and> set (broadcastRoom st' (Some roomId) (OToiletBack roomId u d))
           \<subseteq> set (snd (on_message st i e (ToiletBack r)))"
proof -
  have om: "on_message st i e (ToiletBack r) = handle_toiletBack st i u e r"
    using on_message_user [OF assms(4-7)] by simp
  have near: "\<exists>k. d = 10 * k \<and> 10000 * k - 5000 \<le> max 0 (now e - start)
                  \<and> max 0 (now e - start) < 10000 * k + 5000"
    unfolding d_def using durationSec_nearest [OF assms(11,12)] .
  have nonneg: "0 \<le> d"
    unfolding d_def by (rule durationSec_nonneg)
  have ex: "now e - start = 95000 \<longrightarrow> d = 100"
    unfolding d_def using assms(11,12) by (simp add: durationSec_of_def js_round_def)
  note eff = handle_toiletBack_effect [OF assms(8,9,7), of e, unfolded assms(10), folded d_def]
  show ?thesis
    using near nonneg ex eff(1,2,3,5) unfolding st'_def subject_def om by simp
qed

theorem toiletBack_duration_rounds_witness:
  "1 < length (clients ex_state) \<and> ws_userId (clients ex_state ! 1) = Some ''s1''
   \<and> users ex_state ''s1'' \<noteq> None
   \<and> or_else None (ws_roomId (clients ex_state ! 1)) = Some ''R1''
   \<and> rooms ex_state ''R1'' \<noteq> None
   \<and> getToiletState ex_state ''R1'' ''s1'' = Some \<lparr>t_status = Allowed, t_start = Some 5000\<rparr>
   \<and> now ex_env - 5000 = 95000
   \<and> durationSec_of (now ex_env) (Some \<lparr>t_status = Allowed, t_start = Some 5000\<rparr>) = 100
   \<and> c_toiletSeconds (get_counter ex_state ''R1'' ''s1'') = 0
   \<and> c_toiletSeconds (get_counter (fst (on_message ex_state 1 ex_env (ToiletBack None))) ''R1'' ''s1'') = 100"
proof -
  have h1: "1 < length (clients ex_state)" by (simp add: ex_defs)
  have h2: "ws_userId (clients ex_state ! 1) = Some ''s1''" by (simp add: ex_defs)
  have h3: "''s1'' \<noteq> []" by simp
  have h4: "users ex_state ''s1'' = Some (the (ex_users ''s1''))" by (simp add: ex_defs)
  have h5: "or_else None (ws_roomId (clients ex_state ! 1)) = Some ''R1''" by (simp add: ex_defs js_defs)
  have h6: "rooms ex_state ''R1'' = Some (the (ex_rooms ''R1''))" by (simp add: ex_defs)
  have h7: "getToiletState ex_state ''R1'' ''s1'' = Some \<lparr>t_status = Allowed, t_start = Some 5000\<rparr>"
    by (simp add: ex_defs getToiletState_def)
  have h8: "t_start \<lparr>t_status = Allowed, t_start = Some 5000\<rparr> = Some 5000" by simp
  have h9: "(5000::int) \<noteq> 0" by simp
  have e: "now ex_env - 5000 = 95000" by (simp add: ex_defs)
  have c0: "c_toiletSeconds (get_counter ex_state ''R1'' ''s1'') = 0" by (simp add: ex_defs get_counter_def)
  from toiletBack_duration_rounds [OF h1 h2 h3 h4 h5 h6 h7 h8 h9, of ex_env] e c0
  have "durationSec_of (now ex_env) (Some \<lparr>t_status = Allowed, t_start = Some 5000\<rparr>) = 100"
    and "c_toiletSeconds (get_counter (fst (on_message ex_state 1 ex_env (ToiletBack None))) ''R1'' ''s1'') = 100"
    by simp_all
  with h1 h2 h4 h5 h6 h7 e c0 show ?thesis by simp
qed

section \<open>Raising and lowering a hand\<close>

lemma handle_ready_effect:
  fixes st i u user e r roomId room
  defines "st' \<equiv> fst (handle_ready st i u user e r)"
  defines "subject \<equiv> str_or (r_subject room) ''default''"
  assumes "or_else r (ws_roomId (clients st ! i)) = Some roomId" and "rooms st roomId = Some room"
    and "users st u = Some user" and "u_role user \<noteq> Teacher" and "\<not> class_mismatch user room"
    and "i < length (clients st)"
  shows "signals (stats_of st' u subject) = max 0 (signals (stats_of st u subject) + 1)"
    and "d_signals (get_daily (stats_of st' u subject) (today e))
         = max 0 (d_signals (get_daily (stats_of st u subject) (today e)) + 1)"
    and "c_signals (get_counter st' roomId u) = c_signals (get_counter st roomId u) + 1"
    and "readyMap st' roomId \<noteq> None"
    and "rooms st' = rooms st"
    and "length (clients st') = length (clients st)"
    and "ws_userId (clients st' ! i) = ws_userId (clients st ! i)"
    and "ws_roomId (clients st' ! i) = Some roomId"
    and "users st' u \<noteq> None"
proof -
  note defs = handle_ready_def effect_simps set_room_fields st'_def subject_def
  show "signals (stats_of st' u subject) = max 0 (signals (stats_of st u subject) + 1)"
    using assms(3-8) by (simp add: defs)
  show "d_signals (get_daily (stats_of st' u subject) (today e))
         = max 0 (d_signals (get_daily (stats_of st u subject) (today e)) + 1)"
    using assms(3-8) by (simp add: defs)
  show "c_signals (get_counter st' roomId u) = c_signals (get_counter st roomId u) + 1"
    using assms(3-8) by (simp add: defs)
  show "readyMap st' roomId \<noteq> None"
    using assms(3-8) by (simp add: defs add_in_Some)
  show "rooms st' = rooms st"
    using assms(3-8) by (simp add: defs)
  show "length (clients st') = length (clients st)"
    using assms(3-8) by (simp add: defs)
  show "ws_userId (clients st' ! i) = ws_userId (clients st ! i)"
    using assms(3-8) by (simp add: defs set_room_client)
  show "ws_roomId (clients st' ! i) = Some roomId"
    using assms(3-8) by (simp add: defs set_room_client)
  show "users st' u \<noteq> None"
    using assms(3-8) by (simp add: defs sendStats_users_None)
qed

lemma handle_withdraw_effect:
  fixes st i u user e r roomId room
  defines "st' \<equiv> fst (handle_withdraw st i u e r)"
  defines "subject \<equiv> str_or (r_subject room) ''default''"
  assumes "or_else r (ws_roomId (clients st ! i)) = Some roomId" and "roomId \<noteq> []"
    and "readyMap st roomId \<noteq> None" and "rooms st roomId = Some room"
    and "users st u = Some user"
  shows "signals (stats_of st' u subject) = max 0 (signals (stats_of st u subject) - 1)"
    and "d_signals (get_daily (stats_of st' u subject) (today e))
         = max 0 (d_signals (get_daily (stats_of st u subject) (today e)) - 1)"
    and "c_signals (get_counter st' roomId u) = max 0 (c_signals (get_counter st roomId u) - 1)"
proof -
  note defs = handle_withdraw_def effect_simps st'_def subject_def
  show "signals (stats_of st' u subject) = max 0 (signals (stats_of st u subject) - 1)"
    using assms(3-7) by (auto simp add: defs split: option.splits)
  show "d_signals (get_daily (stats_of st' u subject) (today e))
         = max 0 (d_signals (get_daily (stats_of st u subject) (today e)) - 1)"
    using assms(3-7) by (auto simp add: defs split: option.splits)
  show "c_signals (get_counter st' roomId u) = max 0 (c_signals (get_counter st roomId u) - 1)"
  proof (cases "roomCounters st roomId")
    case None
    then have "get_counter st roomId u = new_counter" by (simp add: get_counter_def)
    with None show ?thesis
      using assms(3-7) by (auto simp add: defs new_counter_def intro: get_counter_frame)
  next
    case (Some m)
    then show ?thesis
      using assms(3-7) by (auto simp add: defs)
  qed
qed


lemma or_else_again:
  assumes "or_else r x = Some roomId" and "roomId \<noteq> []"
  shows "or_else r (Some roomId) = Some roomId"
  using assms by (auto simp: or_else_def truthy_def split: option.splits if_splits)

text \<open>
  Claim C2, as amended. Let the \<^verbatim>\<open>ready\<close> of user \<open>u\<close> for the existing room be
  accepted (\<open>u\<close> is no teacher, and not a student whose class and the room's class are both
  set and differ), and let the cumulative counter, the daily counter of the date and the
  session counter of \<open>u\<close> be non-negative before. Then \<^verbatim>\<open>ready\<close> followed by
  \<^verbatim>\<open>withdraw\<close> on the same date gives the three signal counters their values from
  before the \<^verbatim>\<open>ready\<close>, and none of them is below zero after either message.
\<close>

theorem ready_then_withdraw_restores:
  fixes st i u user e e' r roomId room
  defines "st1 \<equiv> fst (on_message st i e (Ready r))"
  defines "st2 \<equiv> fst (on_message st1 i e' (Withdraw r))"
  defines "subject \<equiv> str_or (r_subject room) ''default''"
  assumes "i < length (clients st)" and "ws_userId (clients st ! i) = Some u" and "u \<noteq> []"
    and "users st u = Some user"
    and "or_else r (ws_roomId (clients st ! i)) = Some roomId" and "roomId \<noteq> []"
    and "rooms st roomId = Some room"
    and "u_role user \<noteq> Teacher" and "\<not> class_mismatch user room"
    and "today e' = today e"
    and "0 \<le> signals (stats_of st u subject)"
    and "0 \<le> d_signals (get_daily (stats_of st u subject) (today e))"
    and "0 \<le> c_signals (get_counter st roomId u)"
  shows "signals (stats_of st2 u subject) = signals (stats_of st u subject)
       \<and> d_signals (get_daily (stats_of st2 u subject) (today e))
           = d_signals (get_daily (stats_of st u subject) (today e))
       \<and> c_signals (get_counter st2 roomId u) = c_signals (get_counter st roomId u)
       \<and> 0 \<le> signals (stats_of st1 u subject)
       \<and> 0 \<le> d_signals (get_daily (stats_of st1 u subject) (today e))
       \<and> 0 \<le> c_signals (get_counter st1 roomId u)
       \<and> 0 \<le> signals (stats_of st2 u subject)
       \<and> 0 \<le> d_signals (get_daily (stats_of st2 u subject) (today e))
       \<and> 0 \<le> c_signals (get_counter st2 roomId u)"
proof -
  have om1: "st1 = fst (handle_ready st i u user e r)"
    unfolding st1_def using on_message_user [OF assms(4-7)] by simp
  note r = handle_ready_effect [OF assms(8,10,7,11,12,4), of e, folded om1 subject_def]
  from r(9) obtain user1 where u1: "users st1 u = Some user1" by blast
  have i1: "i < length (clients st1)" using r(6) assms(4) by simp
  have w1: "ws_userId (clients st1 ! i) = Some u" using r(7) assms(5) by simp
  have om2: "st2 = fst (handle_withdraw st1 i u e' r)"
    unfolding st2_def using on_message_user [OF i1 w1 assms(6) u1] by simp
  have oe: "or_else r (ws_roomId (clients st1 ! i)) = Some roomId"
    using or_else_again [OF assms(8,9)] r(8) by simp
  have room1: "rooms st1 roomId = Some room" using r(5) assms(10) by simp
  note w = handle_withdraw_effect [OF oe assms(9) r(4) room1 u1, of e', folded om2 subject_def]
  show ?thesis
    using r(1,2,3) w assms(13-16) by simp
qed

theorem ready_then_withdraw_restores_witness:
  "signals (stats_of ex_state ''s1'' ''Math'') = 1
   \<and> signals (stats_of (fst (on_message ex_state 1 ex_env (Ready None))) ''s1'' ''Math'') = 2
   \<and> signals (stats_of (fst (on_message (fst (on_message ex_state 1 ex_env (Ready None))) 1 ex_env
         (Withdraw None))) ''s1'' ''Math'') = 1"
proof -
  have h1: "1 < length (clients ex_state)" by (simp add: ex_defs)
  have h2: "ws_userId (clients ex_state ! 1) = Some ''s1''" by (simp add: ex_defs)
  have h3: "''s1'' \<noteq> []" by simp
  have h4: "users ex_state ''s1'' = Some (the (ex_users ''s1''))" by (simp add: ex_defs)
  have h5: "or_else None (ws_roomId (clients ex_state ! 1)) = Some ''R1''" by (simp add: ex_defs js_defs)
  have h6: "''R1'' \<noteq> []" by simp
  have h7: "rooms ex_state ''R1'' = Some (the (ex_rooms ''R1''))" by (simp add: ex_defs)
  have h8: "u_role (the (ex_users ''s1'')) \<noteq> Teacher" by (simp add: ex_defs)
  have h9: "\<not> class_mismatch (the (ex_users ''s1'')) (the (ex_rooms ''R1''))"
    by (simp add: ex_defs class_mismatch_def)
  have h10: "today ex_env = today ex_env" by simp
  have s: "str_or (r_subject (the (ex_rooms ''R1''))) ''default'' = ''Math''"
    by (simp add: ex_defs str_or_def)
  have v: "stats_of ex_state ''s1'' ''Math'' = the (u_stats (the (ex_users ''s1'')) ''Math'')"
    by (simp add: ex_defs stats_of_def get_stats_def)
  have h11: "0 \<le> signals (stats_of ex_state ''s1'' (str_or (r_subject (the (ex_rooms ''R1''))) ''default''))"
    unfolding s v by (simp add: ex_defs)
  have h12: "0 \<le> d_signals (get_daily (stats_of ex_state ''s1'' (str_or (r_subject (the (ex_rooms ''R1''))) ''default'')) (today ex_env))"
    unfolding s v by (simp add: ex_defs get_daily_def)
  have h13: "0 \<le> c_signals (get_counter ex_state ''R1'' ''s1'')"
    by (simp add: ex_defs get_counter_def)
  have a: "signals (stats_of ex_state ''s1'' ''Math'') = 1"
    unfolding v by (simp add: ex_defs)
  have b: "signals (stats_of (fst (on_message ex_state 1 ex_env (Ready None))) ''s1'' ''Math'') = 2"
    by (simp add: run_defs cong: let_weak_cong)
  from ready_then_withdraw_restores [OF h1 h2 h3 h4 h5 h6 h7 h8 h9 h10 h11 h12 h13] a b
  show ?thesis unfolding s by simp
qed

text \<open>The claim as stated fails where the \<^verbatim>\<open>ready\<close> is rejected: student s1 of class 7a
  has one signal in Math; the \<^verbatim>\<open>ready\<close> for room R2 of class 7b changes nothing, and the
  \<^verbatim>\<open>withdraw\<close> for R2, which has no such check, takes the signal away.\<close>

theorem ready_then_withdraw_counterexample:
  "signals (stats_of ex_state ''s1'' ''Math'') = 1
   \<and> on_message ex_state 1 ex_env (Ready (Some ''R2'')) = (ex_state, [])
   \<and> signals (stats_of (fst (on_message (fst (on_message ex_state 1 ex_env (Ready (Some ''R2'')))) 1 ex_env
         (Withdraw (Some ''R2'')))) ''s1'' ''Math'') = 0"
proof -
  have a: "signals (stats_of ex_state ''s1'' ''Math'') = 1"
    by (simp add: ex_defs stats_of_def get_stats_def)
  have b: "on_message ex_state 1 ex_env (Ready (Some ''R2'')) = (ex_state, [])"
    by (simp add: on_message_def on_message_result_def handle_ready_def class_mismatch_def or_else_def
        truthy_def ex_defs)
  have c: "signals (stats_of (fst (on_message ex_state 1 ex_env (Withdraw (Some ''R2'')))) ''s1'' ''Math'') = 0"
    by (simp add: run_defs cong: let_weak_cong)
  show ?thesis unfolding b using a c by simp
qed

text \<open>
  Claim C8, as amended. A \<^verbatim>\<open>ready\<close> message whose sender has the role teacher, and a
  \<^verbatim>\<open>ready\<close> message of a student whose class and the room's class are both set and
  differ, changes no state and sends nothing.
\<close>

theorem ready_rejected_is_noop:
  assumes "i < length (clients st)" and "ws_userId (clients st ! i) = Some u" and "u \<noteq> []"
    and "users st u = Some user"
    and "u_role user = Teacher
         \<or> (or_else r (ws_roomId (clients st ! i)) = Some roomId \<and> rooms st roomId = Some room
            \<and> u_role user = Student \<and> r_className room \<noteq> [] \<and> u_className user \<noteq> []
            \<and> u_className user \<noteq> r_className room)"
  shows "on_message st i e (Ready r) = (st, [])"
proof -
  have "on_message st i e (Ready r) = handle_ready st i u user e r"
    using on_message_user [OF assms(1-4)] by simp
  also have "\<dots> = (st, [])"
    using assms(5) by (auto simp: handle_ready_def class_mismatch_def split: option.splits)
  finally show ?thesis .
qed

theorem ready_rejected_is_noop_witness:
  "u_role (the (users ex_state ''t1'')) = Teacher
   \<and> on_message ex_state 0 ex_env (Ready (Some ''R1'')) = (ex_state, [])
   \<and> u_className (the (users ex_state ''s2'')) = ''7b''
   \<and> r_className (the (rooms ex_state ''R1'')) = ''7a''
   \<and> on_message ex_state 3 ex_env (Ready (Some ''R1'')) = (ex_state, [])"
proof -
  have t1: "0 < length (clients ex_state)" by (simp add: ex_defs)
  have t2: "ws_userId (clients ex_state ! 0) = Some ''t1''" by (simp add: ex_defs)
  have t3: "''t1'' \<noteq> []" by simp
  have t4: "users ex_state ''t1'' = Some (the (ex_users ''t1''))" by (simp add: ex_defs)
  have t5: "u_role (the (ex_users ''t1'')) = Teacher" by (simp add: ex_defs)
  have s1: "3 < length (clients ex_state)" by (simp add: ex_defs)
  have s2: "ws_userId (clients ex_state ! 3) = Some ''s2''" by (simp add: ex_defs)
  have s3: "''s2'' \<noteq> []" by simp
  have s4: "users ex_state ''s2'' = Some (the (ex_users ''s2''))" by (simp add: ex_defs)
  have s5: "or_else (Some ''R1'') (ws_roomId (clients ex_state ! 3)) = Some ''R1''
            \<and> rooms ex_state ''R1'' = Some (the (ex_rooms ''R1''))
            \<and> u_role (the (ex_users ''s2'')) = Student \<and> r_className (the (ex_rooms ''R1'')) \<noteq> []
            \<and> u_className (the (ex_users ''s2'')) \<noteq> []
            \<and> u_className (the (ex_users ''s2'')) \<noteq> r_className (the (ex_rooms ''R1''))"
    by (simp add: ex_defs js_defs)
  have a: "on_message ex_state 0 ex_env (Ready (Some ''R1'')) = (ex_state, [])"
    by (rule ready_rejected_is_noop [OF t1 t2 t3 t4 disjI1 [OF t5]])
  have b: "on_message ex_state 3 ex_env (Ready (Some ''R1'')) = (ex_state, [])"
    by (rule ready_rejected_is_noop [OF s1 s2 s3 s4 disjI2 [OF s5]])
  show ?thesis using a b by (simp add: ex_defs)
qed

text \<open>The claim as stated fails for an admin and for a student with no class: both are
  entered into the ready set of R1, and the room is told.\<close>

theorem ready_rejected_counterexample:
  "u_role (the (users ex_state ''a1'')) = Admin
   \<and> readyMap (fst (on_message ex_state 2 ex_env (Ready (Some ''R1'')))) ''R1'' = Some [''a1'']
   \<and> snd (on_message ex_state 2 ex_env (Ready (Some ''R1''))) \<noteq> []
   \<and> u_role (the (users ex_state ''s3'')) = Student
   \<and> u_className (the (users ex_state ''s3'')) \<noteq> r_className (the (rooms ex_state ''R1''))
   \<and> readyMap (fst (on_message ex_state 4 ex_env (Ready (Some ''R1'')))) ''R1'' = Some [''s3'']
   \<and> snd (on_message ex_state 4 ex_env (Ready (Some ''R1''))) \<noteq> []"
  by (simp add: run_defs cong: let_weak_cong)


section \<open>Permission to leave the room\<close>

text \<open>
  Claim C10. A \<^verbatim>\<open>toiletAllow\<close> message from a teacher or admin socket, for any
  (non-empty) room id and target user id, sets the target's toilet status in that room to
  allowed with \<^verbatim>\<open>Date.now()\<close> as start. Nothing is asked of the state before: the target
  need not have a pending request, need not be a member of the room (and is not made one),
  and the room need not exist.
\<close>

theorem toiletAllow_sets_allowed:
  fixes st i u user e r roomId target
  defines "st' \<equiv> fst (on_message st i e (ToiletAllow r (Some target)))"
  assumes "i < length (clients st)" and "ws_userId (clients st ! i) = Some u" and "u \<noteq> []"
    and "users st u = Some user"
    and "ws_role (clients st ! i) = Some Teacher \<or> ws_role (clients st ! i) = Some Admin"
    and "or_else r (ws_roomId (clients st ! i)) = Some roomId" and "roomId \<noteq> []"
    and "target \<noteq> []"
  shows "getToiletState st' roomId target = Some \<lparr>t_status = Allowed, t_start = Some (now e)\<rparr>
       \<and> roomMembers st' = roomMembers st"
proof -
  have "on_message st i e (ToiletAllow r (Some target)) = handle_toiletAllow st i e r (Some target)"
    using on_message_user [OF assms(2-5)] assms(6) by auto
  then show ?thesis
    unfolding st'_def using assms(7-9)
    by (simp add: handle_toiletAllow_def Let_def getToiletState_def)
qed

theorem toiletAllow_sets_allowed_witness:
  "ws_role (clients ex_state ! 0) = Some Teacher
   \<and> or_else (Some ''R2'') (ws_roomId (clients ex_state ! 0)) = Some ''R2''
   \<and> getToiletState ex_state ''R2'' ''s2'' = None
   \<and> \<not> has_in (roomMembers ex_state) ''R2'' ''s2''
   \<and> getToiletState (fst (on_message ex_state 0 ex_env (ToiletAllow (Some ''R2'') (Some ''s2'')))) ''R2'' ''s2''
       = Some \<lparr>t_status = Allowed, t_start = Some (now ex_env)\<rparr>
   \<and> \<not> has_in (roomMembers (fst (on_message ex_state 0 ex_env (ToiletAllow (Some ''R2'') (Some ''s2''))))) ''R2'' ''s2''"
proof -
  have h1: "0 < length (clients ex_state)" by (simp add: ex_defs)
  have h2: "ws_userId (clients ex_state ! 0) = Some ''t1''" by (simp add: ex_defs)
  have h3: "''t1'' \<noteq> []" by simp
  have h4: "users ex_state ''t1'' = Some (the (ex_users ''t1''))" by (simp add: ex_defs)
  have h5: "ws_role (clients ex_state ! 0) = Some Teacher" by (simp add: ex_defs)
  have h6: "or_else (Some ''R2'') (ws_roomId (clients ex_state ! 0)) = Some ''R2''"
    by (simp add: js_defs)
  have h7: "''R2'' \<noteq> []" and h8: "''s2'' \<noteq> []" by simp_all
  have a: "getToiletState ex_state ''R2'' ''s2'' = None" by (simp add: ex_defs getToiletState_def)
  have b: "\<not> has_in (roomMembers ex_state) ''R2'' ''s2''" by (simp add: ex_defs has_in_def)
  from toiletAllow_sets_allowed [OF h1 h2 h3 h4 disjI1 [OF h5] h6 h7 h8, of ex_env] h5 h6 a b
  show ?thesis by simp
qed

section \<open>Ratings\<close>






section \<open>Deleting a log entry\<close>

lemma splice_entry_first:
  assumes "\<forall>x\<in>set pre. le_id x \<noteq> le_id removed"
  shows "splice_entry (le_id removed) (pre @ removed # post) = Some (removed, pre @ post)"
  using assms by (induction pre) auto

text \<open>
  Claim C7. Let the log of a room hold an entry with action called and target user
  \<open>u\<close>, the first entry with its id. A \<^verbatim>\<open>logDelete\<close> of that entry by a teacher or admin
  lowers the cumulative call counter of \<open>u\<close> for the room's subject, the daily call
  counter of the current date and the session call counter of \<open>u\<close> in the room by 1 each,
  floored at 0, removes the entry from the log, and leaves all signal counters of \<open>u\<close>
  (cumulative, daily, session) unchanged.
\<close>

theorem logDelete_called_reverses_call:
  fixes st i u user e r roomId room pre removed post target targetUser
  defines "st' \<equiv> fst (on_message st i e (LogDelete r (Some (le_id removed))))"
  defines "subject \<equiv> str_or (r_subject room) ''default''"
  assumes "i < length (clients st)" and "ws_userId (clients st ! i) = Some u" and "u \<noteq> []"
    and "users st u = Some user"
    and "ws_role (clients st ! i) = Some Teacher \<or> ws_role (clients st ! i) = Some Admin"
    and "or_else r (ws_roomId (clients st ! i)) = Some roomId" and "roomId \<noteq> []"
    and "rooms st roomId = Some room"
    and "logs st roomId = Some (pre @ removed # post)"
    and "le_id removed \<noteq> []" and "\<forall>x\<in>set pre. le_id x \<noteq> le_id removed"
    and "le_action removed = ''called''" and "le_userId removed = target" and "target \<noteq> []"
    and "users st target = Some targetUser"
  shows "calls (stats_of st' target subject) = max 0 (calls (stats_of st target subject) - 1)
       \<and> d_calls (get_daily (stats_of st' target subject) (today e))
           = max 0 (d_calls (get_daily (stats_of st target subject) (today e)) - 1)
       \<and> c_calls (get_counter st' roomId target) = max 0 (c_calls (get_counter st roomId target) - 1)
       \<and> logs st' roomId = Some (pre @ post)
       \<and> (\<forall>s. signals (stats_of st' target s) = signals (stats_of st target s))
       \<and> (\<forall>s d. d_signals (get_daily (stats_of st' target s) d)
                  = d_signals (get_daily (stats_of st target s) d))
       \<and> (\<forall>r'. c_signals (get_counter st' r' target) = c_signals (get_counter st r' target))"
proof -
  have om: "st' = fst (case handle_logDelete st i e r (Some (le_id removed)) of
                        Inl err \<Rightarrow> (st, []) | Inr x \<Rightarrow> x)"
    unfolding st'_def using on_message_user [OF assms(3-6)] assms(7) by auto
  have sp: "splice_entry (le_id removed) (pre @ removed # post) = Some (removed, pre @ post)"
    using assms(13) by (rule splice_entry_first)
  have neq: "''called'' \<noteq> ''rating''" by simp
  note defs = handle_logDelete_def effect_simps subject_def
  note facts = assms(8-12) assms(14-17) sp
  have a: "calls (stats_of st' target subject) = max 0 (calls (stats_of st target subject) - 1)"
    unfolding om using facts by (simp add: defs)
  have b: "d_calls (get_daily (stats_of st' target subject) (today e))
           = max 0 (d_calls (get_daily (stats_of st target subject) (today e)) - 1)"
    unfolding om using facts by (simp add: defs)
  have c: "c_calls (get_counter st' roomId target) = max 0 (c_calls (get_counter st roomId target) - 1)"
    unfolding om using facts by (simp add: defs)
  have d: "logs st' roomId = Some (pre @ post)"
    unfolding om using facts by (simp add: defs set_counter_def)
  have f: "\<forall>s. signals (stats_of st' target s) = signals (stats_of st target s)"
    unfolding om using facts by (simp add: defs)
  have g: "\<forall>s d. d_signals (get_daily (stats_of st' target s) d)
                  = d_signals (get_daily (stats_of st target s) d)"
    unfolding om using facts by (simp add: defs get_daily_def)
  have h: "\<forall>r'. c_signals (get_counter st' r' target) = c_signals (get_counter st r' target)"
    unfolding om using facts by (simp add: defs)
  from a b c d f g h show ?thesis by simp
qed


theorem logDelete_called_reverses_call_witness:
  "ws_role (clients ex_state ! 0) = Some Teacher
   \<and> logs ex_state ''R1'' = Some ex_log
   \<and> calls (stats_of ex_state ''s1'' ''Math'') = 1
   \<and> c_calls (get_counter ex_state ''R1'' ''s1'') = 1
   \<and> calls (stats_of (fst (on_message ex_state 0 ex_env (LogDelete None (Some ''log-1'')))) ''s1'' ''Math'') = 0
   \<and> c_calls (get_counter (fst (on_message ex_state 0 ex_env (LogDelete None (Some ''log-1'')))) ''R1'' ''s1'') = 0
   \<and> logs (fst (on_message ex_state 0 ex_env (LogDelete None (Some ''log-1'')))) ''R1'' = Some (tl ex_log)
   \<and> signals (stats_of (fst (on_message ex_state 0 ex_env (LogDelete None (Some ''log-1'')))) ''s1'' ''Math'') = 1
   \<and> calls (stats_of ex_state ''s2'' ''Math'') = 1
   \<and> calls (stats_of (fst (on_message ex_state 0 ex_env (LogDelete None (Some ''log-3'')))) ''s2'' ''Math'') = 0
   \<and> logs (fst (on_message ex_state 0 ex_env (LogDelete None (Some ''log-3'')))) ''R1'' = Some (butlast ex_log)"
proof -
  have t1: "0 < length (clients ex_state)" by (simp add: ex_defs)
  have t2: "ws_userId (clients ex_state ! 0) = Some ''t1''" by (simp add: ex_defs)
  have t3: "''t1'' \<noteq> []" by simp
  have t4: "users ex_state ''t1'' = Some (the (ex_users ''t1''))" by (simp add: ex_defs)
  have t5: "ws_role (clients ex_state ! 0) = Some Teacher" by (simp add: ex_defs)
  have t6: "or_else None (ws_roomId (clients ex_state ! 0)) = Some ''R1''" by (simp add: ex_defs js_defs)
  have r1: "''R1'' \<noteq> []" by simp
  have r2: "rooms ex_state ''R1'' = Some (the (ex_rooms ''R1''))" by (simp add: ex_defs)
  have l1: "logs ex_state ''R1'' = Some ([] @ hd ex_log # tl ex_log)" by (simp add: ex_defs)
  have l2: "le_id (hd ex_log) \<noteq> []" by (simp add: ex_defs)
  have l3: "\<forall>x\<in>set []. le_id x \<noteq> le_id (hd ex_log)" by simp
  have l4: "le_action (hd ex_log) = ''called''" by (simp add: ex_defs)
  have l5: "le_userId (hd ex_log) = ''s1''" by (simp add: ex_defs)
  have l6: "''s1'' \<noteq> []" by simp
  have l7: "users ex_state ''s1'' = Some (the (ex_users ''s1''))" by (simp add: ex_defs)
  have m1: "logs ex_state ''R1'' = Some (butlast ex_log @ last ex_log # [])" by (simp add: ex_defs)
  have m2: "le_id (last ex_log) \<noteq> []" by (simp add: ex_defs)
  have m3: "\<forall>x\<in>set (butlast ex_log). le_id x \<noteq> le_id (last ex_log)" by (simp add: ex_defs)
  have m4: "le_action (last ex_log) = ''called''" by (simp add: ex_defs)
  have m5: "le_userId (last ex_log) = ''s2''" by (simp add: ex_defs)
  have m6: "''s2'' \<noteq> []" by simp
  have m7: "users ex_state ''s2'' = Some (the (ex_users ''s2''))" by (simp add: ex_defs)
  have subj: "str_or (r_subject (the (ex_rooms ''R1''))) ''default'' = ''Math''"
    by (simp add: ex_defs str_or_def)
  have id: "le_id (hd ex_log) = ''log-1''" "le_id (last ex_log) = ''log-3''" by (simp_all add: ex_defs)
  have old: "calls (stats_of ex_state ''s1'' ''Math'') = 1" "signals (stats_of ex_state ''s1'' ''Math'') = 1"
    "c_calls (get_counter ex_state ''R1'' ''s1'') = 1" "calls (stats_of ex_state ''s2'' ''Math'') = 1"
    by (simp_all add: ex_defs stats_of_def get_stats_def get_counter_def new_stats_def)
  have l0: "logs ex_state ''R1'' = Some ex_log" by (simp add: ex_defs)
  note a = logDelete_called_reverses_call [OF t1 t2 t3 t4 disjI1 [OF t5] t6 r1 r2 l1 l2 l3 l4 l5 l6 l7,
      of ex_env, unfolded subj id]
  note b = logDelete_called_reverses_call [OF t1 t2 t3 t4 disjI1 [OF t5] t6 r1 r2 m1 m2 m3 m4 m5 m6 m7,
      of ex_env, unfolded subj id]
  from a b old t5 l0 show ?thesis by simp
qed

section \<open>Membership across rooms\<close>






lemma leave_always_removes:
  assumes "i < length (clients st)" and "ws_userId (clients st ! i) = Some u" and "u \<noteq> []"
    and "users st u = Some user"
    and "ws_roomId (clients st ! i) = Some roomId" and "roomId \<noteq> []"
  shows "\<not> has_in (roomMembers (fst (on_message st i e Leave))) roomId u"
proof -
  have "on_message st i e Leave = handle_leave st i u"
    using on_message_user [OF assms(1-4)] by simp
  then show ?thesis
    using assms(5,6)
    by (simp add: handle_leave_def Let_def set_room_def resetReady_def has_in_delete_in)
qed

lemma close_keeps_member_while_away:
  assumes "i < length (clients st)" and "ws_userId (clients st ! i) = Some u" and "u \<noteq> []"
    and "ws_roomId (clients st ! i) = Some roomId" and "roomId \<noteq> []"
    and "getToiletState st roomId u = Some t" and "t_status t \<noteq> Back"
  shows "roomMembers (fst (on_close st i)) = roomMembers st"
  using assms
  by (simp add: on_close_def Let_def detachSocket_def getToiletState_def split: option.splits)

lemma close_removes_member_otherwise:
  assumes "i < length (clients st)" and "ws_userId (clients st ! i) = Some u" and "u \<noteq> []"
    and "ws_roomId (clients st ! i) = Some roomId" and "roomId \<noteq> []"
    and "getToiletState st roomId u = None \<or> (\<exists>t. getToiletState st roomId u = Some t \<and> t_status t = Back)"
  shows "\<not> has_in (roomMembers (fst (on_close st i))) roomId u"
  using assms
  by (auto simp add: on_close_def Let_def detachSocket_def getToiletState_def resetReady_def
      has_in_delete_in split: option.splits)

text \<open>
  Claim C3 says that a user whose toilet status is pending or allowed stays in the member
  set of the room on an explicit \<^verbatim>\<open>leave\<close> as on the close of the socket. The
  \<^verbatim>\<open>leave\<close> block has no such check: student s1 is away with permission in R1, the
  \<^verbatim>\<open>leave\<close> message takes s1 out of the member set of R1, and the close of the same
  socket in the same state keeps s1 in it.
\<close>

theorem leave_while_away_drops_member:
  "getToiletState ex_state ''R1'' ''s1'' = Some \<lparr>t_status = Allowed, t_start = Some 5000\<rparr>
   \<and> roomMembers ex_state ''R1'' = Some [''t1'', ''s1'', ''a1'']
   \<and> roomMembers (fst (on_message ex_state 1 ex_env Leave)) ''R1'' = Some [''t1'', ''a1'']
   \<and> roomMembers (fst (on_close ex_state 1)) ''R1'' = Some [''t1'', ''s1'', ''a1'']"
  by (simp add: run_defs on_close_def detachSocket_def cong: let_weak_cong)

section \<open>The log as each socket sees it\<close>

text \<open>
  Claim C5, as amended. For every room and every log, a socket with role teacher receives
  every entry except those with action signal or withdraw, with the rating field; every
  other socket receives only the entries whose target is its own user, none with action
  signal, withdraw or rating, and never the rating field. \<^verbatim>\<open>sendLogUpdates\<close> sends
  exactly this projection to every open socket of the room.
\<close>

theorem log_projection_by_role:
  fixes st r client
  defines "entries \<equiv> (case logs st r of None \<Rightarrow> [] | Some es \<Rightarrow> es)"
  shows "(if ws_role client = Some Teacher
          then log_projection st r client
                 = map (log_entry_view st True)
                     (filter (\<lambda>e. le_action e \<noteq> ''signal'' \<and> le_action e \<noteq> ''withdraw'') entries)
               \<and> (\<forall>e. lv_rating (log_entry_view st True e) = le_rating e)
          else log_projection st r client
                 = map (log_entry_view st False)
                     (filter (\<lambda>e. Some (le_userId e) = ws_userId client \<and> le_action e \<noteq> ''signal''
                                  \<and> le_action e \<noteq> ''withdraw'' \<and> le_action e \<noteq> ''rating'') entries)
               \<and> (\<forall>v\<in>set (log_projection st r client).
                     Some (lv_userId v) = ws_userId client \<and> lv_action v \<noteq> ''signal''
                     \<and> lv_action v \<noteq> ''withdraw'' \<and> lv_action v \<noteq> ''rating'' \<and> lv_rating v = None))
       \<and> (\<forall>i m. (i, m) \<in> set (sendLogUpdates st r) \<longleftrightarrow>
             i < length (clients st) \<and> ws_open (clients st ! i) \<and> ws_roomId (clients st ! i) = Some r
             \<and> m = (if ws_role (clients st ! i) = Some Teacher
                    then OLog r (log_projection st r (clients st ! i))
                    else OMyLog r (log_projection st r (clients st ! i))))"
proof -
  have vis_t: "log_visible True uid = (\<lambda>e. le_action e \<noteq> ''signal'' \<and> le_action e \<noteq> ''withdraw'')" for uid
    by (auto simp: log_visible_def fun_eq_iff)
  have vis_o: "log_visible False uid = (\<lambda>e. Some (le_userId e) = uid \<and> le_action e \<noteq> ''signal''
                                  \<and> le_action e \<noteq> ''withdraw'' \<and> le_action e \<noteq> ''rating'')" for uid
    by (auto simp: log_visible_def fun_eq_iff)
  have a: "ws_role client = Some Teacher \<Longrightarrow> log_projection st r client
                 = map (log_entry_view st True)
                     (filter (\<lambda>e. le_action e \<noteq> ''signal'' \<and> le_action e \<noteq> ''withdraw'') entries)"
    by (simp add: log_projection_def Let_def vis_t entries_def)
  have b: "ws_role client \<noteq> Some Teacher \<Longrightarrow> log_projection st r client
                 = map (log_entry_view st False)
                     (filter (\<lambda>e. Some (le_userId e) = ws_userId client \<and> le_action e \<noteq> ''signal''
                                  \<and> le_action e \<noteq> ''withdraw'' \<and> le_action e \<noteq> ''rating'') entries)"
    by (simp add: log_projection_def Let_def vis_o entries_def)
  have c: "\<forall>e. lv_rating (log_entry_view st True e) = le_rating e"
    by (simp add: log_entry_view_def)
  have d: "ws_role client \<noteq> Some Teacher \<Longrightarrow> \<forall>v\<in>set (log_projection st r client).
                     Some (lv_userId v) = ws_userId client \<and> lv_action v \<noteq> ''signal''
                     \<and> lv_action v \<noteq> ''withdraw'' \<and> lv_action v \<noteq> ''rating'' \<and> lv_rating v = None"
    unfolding b by (auto simp: log_entry_view_def)
  have f: "\<forall>i m. (i, m) \<in> set (sendLogUpdates st r) \<longleftrightarrow>
             i < length (clients st) \<and> ws_open (clients st ! i) \<and> ws_roomId (clients st ! i) = Some r
             \<and> m = (if ws_role (clients st ! i) = Some Teacher
                    then OLog r (log_projection st r (clients st ! i))
                    else OMyLog r (log_projection st r (clients st ! i)))"
    by (auto simp: sendLogUpdates_def room_sockets_def in_set_enumerate_eq image_iff)
  from a b c d f show ?thesis by simp
qed

theorem log_projection_by_role_witness:
  "ws_role (clients ex_state ! 0) = Some Teacher
   \<and> map lv_id (log_projection ex_state ''R1'' (clients ex_state ! 0)) = [''log-1'', ''log-2'', ''log-3'']
   \<and> map lv_rating (log_projection ex_state ''R1'' (clients ex_state ! 0)) = [None, Some ''+'', None]
   \<and> ws_role (clients ex_state ! 1) = Some Student
   \<and> map lv_id (log_projection ex_state ''R1'' (clients ex_state ! 1)) = [''log-1'']
   \<and> map lv_rating (log_projection ex_state ''R1'' (clients ex_state ! 1)) = [None]"
proof -
  have r0: "ws_role (clients ex_state ! 0) = Some Teacher" by (simp add: ex_defs)
  have r1: "ws_role (clients ex_state ! 1) = Some Student" by (simp add: ex_defs)
  have u1: "ws_userId (clients ex_state ! 1) = Some ''s1''" by (simp add: ex_defs)
  have l: "(case logs ex_state ''R1'' of None \<Rightarrow> [] | Some es \<Rightarrow> es) = ex_log" by (simp add: ex_defs)
  note a = log_projection_by_role [of "clients ex_state ! 0" ex_state "''R1''", unfolded l]
  note b = log_projection_by_role [of "clients ex_state ! 1" ex_state "''R1''", unfolded l]
  from a r0 have a': "log_projection ex_state ''R1'' (clients ex_state ! 0)
      = map (log_entry_view ex_state True)
          (filter (\<lambda>e. le_action e \<noteq> ''signal'' \<and> le_action e \<noteq> ''withdraw'') ex_log)"
    by simp
  from b r1 u1 have b': "log_projection ex_state ''R1'' (clients ex_state ! 1)
      = map (log_entry_view ex_state False)
          (filter (\<lambda>e. Some (le_userId e) = Some ''s1'' \<and> le_action e \<noteq> ''signal''
                       \<and> le_action e \<noteq> ''withdraw'' \<and> le_action e \<noteq> ''rating'') ex_log)"
    by simp
  show ?thesis
    unfolding a' b' using r0 r1 by (simp add: ex_log_def log_entry_view_def)
qed

text \<open>The claim as stated fails for an admin socket: the admin in R1 gets the projection
  of a student, which is empty here, so none of the three entries of the log.\<close>

theorem log_projection_admin_counterexample:
  "ws_role (clients ex_state ! 2) = Some Admin \<and> ws_open (clients ex_state ! 2)
   \<and> ws_roomId (clients ex_state ! 2) = Some ''R1''
   \<and> map le_id (the (logs ex_state ''R1'')) = [''log-1'', ''log-2'', ''log-3'']
   \<and> map le_action (the (logs ex_state ''R1'')) = [''called'', ''rating'', ''called'']
   \<and> log_projection ex_state ''R1'' (clients ex_state ! 2) = []
   \<and> (2, OMyLog ''R1'' []) \<in> set (sendLogUpdates ex_state ''R1'')"
  by (simp add: run_defs cong: let_weak_cong)


section \<open>Counting the votes of a poll\<close>

text \<open>For options with different ids, the recount gives every option the number of
  occurrences of its id in the vote lists; a vote keeps a poll well-formed.\<close>

lemma bump_first_ids: "map o_id (bump_first x opts) = map o_id opts"
  by (induction opts) auto

lemma bump_first_distinct:
  "distinct (map o_id opts) \<Longrightarrow>
   bump_first x opts = map (\<lambda>opt. if o_id opt = x then opt\<lparr>o_count := o_count opt + 1\<rparr> else opt) opts"
proof (induction opts)
  case Nil
  then show ?case by simp
next
  case (Cons a opts)
  show ?case
  proof (cases "o_id a = x")
    case True
    with Cons.prems have "\<forall>opt\<in>set opts. o_id opt \<noteq> x" by (auto simp: image_iff)
    then have "map (\<lambda>opt. if o_id opt = x then opt\<lparr>o_count := o_count opt + 1\<rparr> else opt) opts = opts"
      by (simp add: map_idI)
    with True show ?thesis by simp
  next
    case False
    with Cons show ?thesis by simp
  qed
qed

lemma fold_bump_first:
  "distinct (map o_id opts) \<Longrightarrow>
   fold bump_first vals opts
     = map (\<lambda>opt. opt\<lparr>o_count := o_count opt + int (count_list vals (o_id opt))\<rparr>) opts"
proof (induction vals arbitrary: opts)
  case Nil
  then show ?case by (simp add: map_idI)
next
  case (Cons v vals)
  have d: "distinct (map o_id (bump_first v opts))"
    using Cons.prems by (simp add: bump_first_ids)
  show ?case
    using Cons.IH [OF d] Cons.prems
    by (simp add: bump_first_distinct)
qed

lemma fold_votes:
  "distinct (map o_id opts) \<Longrightarrow>
   fold (\<lambda>(u, vals) os. fold bump_first vals os) votes opts
     = map (\<lambda>opt. opt\<lparr>o_count := o_count opt + int (occurrences (o_id opt) votes)\<rparr>) opts"
proof (induction votes arbitrary: opts)
  case Nil
  then show ?case by (simp add: occurrences_def map_idI)
next
  case (Cons p votes)
  obtain u vals where p: "p = (u, vals)" by (cases p)
  let ?opts' = "map (\<lambda>opt. opt\<lparr>o_count := o_count opt + int (count_list vals (o_id opt))\<rparr>) opts"
  have ids: "map o_id ?opts' = map o_id opts" by (simp add: comp_def)
  have d: "distinct (map o_id ?opts')" using Cons.prems by (simp only: ids)
  show ?case
    using Cons.IH [OF d] Cons.prems
    by (simp add: p fold_bump_first occurrences_def comp_def)
qed

lemma recount_eq:
  "distinct (map o_id opts) \<Longrightarrow>
   recount votes opts = map (\<lambda>opt. opt\<lparr>o_count := int (occurrences (o_id opt) votes)\<rparr>) opts"
  by (simp add: recount_def fold_votes comp_def)

lemma map_set_keys: "fst ` set (map_set k v al) = insert k (fst ` set al)"
  by (induction al) auto

lemma map_set_distinct: "distinct (map fst al) \<Longrightarrow> distinct (map fst (map_set k v al))"
  by (induction al) (auto simp: map_set_keys)

lemma map_set_subset: "set (map_set k v al) \<subseteq> insert (k, v) (set al)"
  by (induction al) auto

lemma map_set_all: "P (k, v) \<Longrightarrow> list_all P al \<Longrightarrow> list_all P (map_set k v al)"
  using map_set_subset [of k v al] by (auto simp: list_all_iff)

lemma occurrences_voters:
  "list_all (\<lambda>(u, vals). distinct vals) votes \<Longrightarrow> occurrences x votes = voters x votes"
proof (induction votes)
  case Nil
  then show ?case by (simp add: occurrences_def voters_def)
next
  case (Cons p votes)
  obtain u vals where p: "p = (u, vals)" by (cases p)
  from Cons.prems p have "distinct vals" by simp
  then have "count_list vals x = (if x \<in> set vals then 1 else 0)"
    by (induction vals) auto
  with Cons p show ?case by (simp add: occurrences_def voters_def)
qed

lemma voters_card:
  assumes "distinct (map fst votes)"
  shows "voters x votes = card {u. \<exists>vals. (u, vals) \<in> set votes \<and> x \<in> set vals}"
proof -
  let ?sel = "filter (\<lambda>(u, vals). x \<in> set vals) votes"
  have "distinct (map fst ?sel)" using assms by (rule distinct_map_filter)
  then have "length ?sel = card (set (map fst ?sel))"
    using distinct_card [of "map fst ?sel"] by simp
  moreover have "set (map fst ?sel) = {u. \<exists>vals. (u, vals) \<in> set votes \<and> x \<in> set vals}"
    by force
  ultimately show ?thesis by (simp add: voters_def)
qed

lemma digit_char_inj: "a < 10 \<Longrightarrow> b < 10 \<Longrightarrow> digit_char a = digit_char b \<Longrightarrow> a = b"
  by (simp add: digit_char_def nth_eq_iff_index_eq)

lemma decimal_nonempty: "decimal n \<noteq> []"
  by (subst decimal.simps) simp

lemma decimal_last: "last (decimal n) = digit_char (n mod 10)"
  by (subst decimal.simps) simp

lemma decimal_butlast: "butlast (decimal n) = (if n < 10 then [] else decimal (n div 10))"
  by (subst decimal.simps) (simp add: butlast_append)

lemma decimal_inj: "decimal n = decimal m \<Longrightarrow> n = m"
proof (induction n arbitrary: m rule: less_induct)
  case (less n)
  from less.prems have l: "digit_char (n mod 10) = digit_char (m mod 10)"
    using decimal_last [of n] decimal_last [of m] by simp
  then have r: "n mod 10 = m mod 10" by (rule digit_char_inj [rotated 2]) simp_all
  from less.prems have b: "butlast (decimal n) = butlast (decimal m)" by simp
  show ?case
  proof (cases "n < 10")
    case True
    with b have "m < 10"
      using decimal_nonempty [of "m div 10"] by (auto simp: decimal_butlast split: if_splits)
    with True r show ?thesis by simp
  next
    case False
    with b have m: "\<not> m < 10" and d: "decimal (n div 10) = decimal (m div 10)"
      using decimal_nonempty [of "n div 10"] by (auto simp: decimal_butlast split: if_splits)
    from False have "n div 10 < n" by simp
    from less.IH [OF this d] have "n div 10 = m div 10" .
    with r show ?thesis by (metis div_mult_mod_eq)
  qed
qed

lemma map_index_enumerate: "map (\<lambda>x. f (fst x)) (enumerate n xs) = map f [n..<n + length xs]"
proof -
  have "map (\<lambda>x. f (fst x)) (enumerate n xs) = map f (map fst (enumerate n xs))"
    by (simp only: map_map comp_def)
  then show ?thesis by (simp only: map_fst_enumerate)
qed

lemma new_poll_ok: "poll_ok (new_poll pid question texts multiple)"
proof -
  have "map o_id (p_options (new_poll pid question texts multiple))
        = map (\<lambda>idx. ''opt-'' @ decimal idx) [0..<length texts]"
    using map_index_enumerate [of "\<lambda>idx. ''opt-'' @ decimal idx" 0 texts]
    by (simp add: new_poll_def comp_def split_def)
  moreover have "distinct (map (\<lambda>idx. ''opt-'' @ decimal idx) [0..<length texts])"
    by (auto simp: distinct_map inj_on_def dest: decimal_inj)
  ultimately show ?thesis
    by (simp add: poll_ok_def) (simp add: new_poll_def occurrences_def list_all_iff split_def)
qed

lemma ex_poll_new: "ex_poll = new_poll ''poll-1'' ''Ready?'' [''yes'', ''no''] True"
  by (simp add: ex_poll_def new_poll_def decimal.simps digit_char_def)

lemma fresh_poll_ok:
  "distinct (map o_id opts) \<Longrightarrow> list_all (\<lambda>opt. o_count opt = 0) opts \<Longrightarrow>
   poll_ok \<lparr>p_id = pid, p_question = q, p_options = opts, p_multiple = m, p_votes = []\<rparr>"
  by (simp add: poll_ok_def occurrences_def)

lemma vote_keeps_poll_ok:
  assumes "poll_ok p" and "allowed = (if p_multiple p then first # others else [first])"
  shows "poll_ok (p\<lparr>p_votes := map_set u allowed (p_votes p),
                   p_options := recount (map_set u allowed (p_votes p)) (p_options p)\<rparr>)"
proof -
  from assms(1) have d: "distinct (map o_id (p_options p))" and k: "distinct (map fst (p_votes p))"
    and single: "p_multiple p \<or> list_all (\<lambda>(u, vals). length vals = 1) (p_votes p)"
    by (simp_all add: poll_ok_def)
  have "p_multiple p \<or> list_all (\<lambda>(u, vals). length vals = 1) (map_set u allowed (p_votes p))"
    using single assms(2) by (auto intro: map_set_all)
  then show ?thesis
    using d k by (simp add: poll_ok_def recount_eq map_set_distinct list_all_iff comp_def)
qed

lemma handle_pollVote_polls_ok:
  assumes "polls_ok st"
  shows "polls_ok (fst (handle_pollVote st i u r opts))"
proof -
  let ?roomId = "or_else r (ws_roomId (clients st ! i))"
  show ?thesis
  proof (cases "pollsMap st ?roomId")
    case None
    then show ?thesis using assms by (simp add: handle_pollVote_def Let_def)
  next
    case (Some po)
    show ?thesis
    proof (cases po)
      case None
      with Some show ?thesis using assms by (simp add: handle_pollVote_def Let_def)
    next
      case (Some p)
      with \<open>pollsMap st ?roomId = Some po\<close> have cur: "pollsMap st ?roomId = Some (Some p)" by simp
      then have ok: "poll_ok p" using assms by (simp add: polls_ok_def)
      show ?thesis
      proof (cases "case opts of None \<Rightarrow> [] | Some xs \<Rightarrow> xs")
        case Nil
        with cur show ?thesis using assms by (simp add: handle_pollVote_def Let_def)
      next
        case (Cons first others)
        with cur show ?thesis
          using assms vote_keeps_poll_ok [OF ok refl, of u first others]
          by (cases "p_multiple p") (simp_all add: handle_pollVote_def Let_def polls_ok_def)
      qed
    qed
  qed
qed

lemma on_message_pollVote_polls_ok:
  assumes "polls_ok st" and "is_pollVote m"
  shows "polls_ok (fst (on_message st i e m))"
  using assms handle_pollVote_polls_ok [OF assms(1)]
  by (cases m)
     (auto simp: on_message_def on_message_result_def Let_def is_pollVote_def split: option.splits)

lemma run_pollVotes_polls_ok:
  "polls_ok st \<Longrightarrow> list_all (\<lambda>(i, e, m). is_pollVote m) ms \<Longrightarrow> polls_ok (run st ms)"
proof (induction ms arbitrary: st)
  case Nil
  then show ?case by simp
next
  case (Cons x ms)
  obtain i e m where x: "x = (i, e, m)" by (cases x)
  from Cons.prems x have "polls_ok (fst (on_message st i e m))"
    by (simp add: on_message_pollVote_polls_ok)
  with Cons x show ?case by (simp add: on_message_result_pollVote)
qed

text \<open>
  Claim C1, as amended. Start from a state whose polls are as \<^verbatim>\<open>pollCreate\<close> and earlier
  votes leave them, and process any sequence of \<^verbatim>\<open>pollVote\<close> messages, with any options
  arrays (also with repeated ids, or ids that the poll does not have). Then for every
  room with a current poll, every option's count is the number of occurrences of the
  option's id in the recorded vote lists; it is the number of users whose recorded list
  contains the id when no recorded list repeats an id. In a poll with multiple = false
  every recorded list has exactly one element, and a user has one recorded list.
\<close>

theorem pollVote_counts_follow_votes:
  assumes "polls_ok st" and "list_all (\<lambda>(i, e, m). is_pollVote m) ms"
    and "pollsMap (run st ms) r = Some (Some p)"
  shows "list_all (\<lambda>opt. o_count opt = int (occurrences (o_id opt) (p_votes p))) (p_options p)
       \<and> (list_all (\<lambda>(u, vals). distinct vals) (p_votes p)
            \<longrightarrow> list_all (\<lambda>opt. o_count opt
                    = int (card {u. \<exists>vals. (u, vals) \<in> set (p_votes p) \<and> o_id opt \<in> set vals}))
                  (p_options p))
       \<and> (\<not> p_multiple p \<longrightarrow> list_all (\<lambda>(u, vals). length vals = 1) (p_votes p))
       \<and> distinct (map fst (p_votes p))"
proof -
  have "polls_ok (run st ms)" using assms(1,2) by (rule run_pollVotes_polls_ok)
  with assms(3) have ok: "poll_ok p" by (simp add: polls_ok_def)
  then have k: "distinct (map fst (p_votes p))" by (simp add: poll_ok_def)
  have "list_all (\<lambda>opt. o_count opt
          = int (card {u. \<exists>vals. (u, vals) \<in> set (p_votes p) \<and> o_id opt \<in> set vals})) (p_options p)"
    if "list_all (\<lambda>(u, vals). distinct vals) (p_votes p)"
    using ok occurrences_voters [OF that] voters_card [OF k]
    by (simp add: poll_ok_def list_all_iff)
  with ok show ?thesis by (auto simp: poll_ok_def)
qed


theorem pollVote_counts_follow_votes_witness:
  "polls_ok ex_state
   \<and> list_all (\<lambda>(i, e, m). is_pollVote m) ex_votes
   \<and> p_votes (the (the (pollsMap (run ex_state ex_votes) (Some ''R1''))))
       = [(''s1'', [''opt-0'']), (''s2'', [''opt-1'', ''opt-7''])]
   \<and> map (\<lambda>opt. (o_id opt, o_count opt))
         (p_options (the (the (pollsMap (run ex_state ex_votes) (Some ''R1'')))))
       = [(''opt-0'', 1), (''opt-1'', 1)]
   \<and> \<not> p_multiple (the (the (pollsMap (run ex_state ex_votes) (Some ''R2''))))
   \<and> p_votes (the (the (pollsMap (run ex_state ex_votes) (Some ''R2'')))) = [(''s2'', [''opt-1''])]
   \<and> map (\<lambda>opt. (o_id opt, o_count opt))
         (p_options (the (the (pollsMap (run ex_state ex_votes) (Some ''R2'')))))
       = [(''opt-0'', 0), (''opt-1'', 1)]"
proof -
  define p where "p = ex_poll\<lparr>p_votes := [(''s1'', [''opt-0'']), (''s2'', [''opt-1'', ''opt-7''])],
    p_options := [\<lparr>o_id = ''opt-0'', o_text = ''yes'', o_count = 1\<rparr>,
                  \<lparr>o_id = ''opt-1'', o_text = ''no'', o_count = 1\<rparr>]\<rparr>"
  define q where "q = ex_poll2\<lparr>p_votes := [(''s2'', [''opt-1''])],
    p_options := [\<lparr>o_id = ''opt-0'', o_text = ''yes'', o_count = 0\<rparr>,
                  \<lparr>o_id = ''opt-1'', o_text = ''no'', o_count = 1\<rparr>]\<rparr>"
  have h1: "polls_ok ex_state"
    by (auto simp: polls_ok_def poll_ok_def occurrences_def ex_defs split: if_splits)
  have h2: "list_all (\<lambda>(i, e, m). is_pollVote m) ex_votes"
    by (simp add: ex_votes_def is_pollVote_def)
  have h3: "pollsMap (run ex_state ex_votes) (Some ''R1'') = Some (Some p)"
    unfolding p_def by (simp add: run_defs ex_votes_def cong: let_weak_cong)
  have h4: "pollsMap (run ex_state ex_votes) (Some ''R2'') = Some (Some q)"
    unfolding q_def by (simp add: run_defs ex_votes_def cong: let_weak_cong)
  from pollVote_counts_follow_votes [OF h1 h2 h3]
  have "list_all (\<lambda>opt. o_count opt = int (occurrences (o_id opt) (p_votes p))) (p_options p)"
    by simp
  then have a: "map (\<lambda>opt. (o_id opt, o_count opt)) (p_options p) = [(''opt-0'', 1), (''opt-1'', 1)]"
    by (simp add: p_def ex_poll_def occurrences_def)
  from pollVote_counts_follow_votes [OF h1 h2 h4]
  have "list_all (\<lambda>opt. o_count opt = int (occurrences (o_id opt) (p_votes q))) (p_options q)"
    and "\<not> p_multiple q \<longrightarrow> list_all (\<lambda>(u, vals). length vals = 1) (p_votes q)"
    by simp_all
  then have b: "map (\<lambda>opt. (o_id opt, o_count opt)) (p_options q) = [(''opt-0'', 0), (''opt-1'', 1)]"
    by (simp add: q_def ex_poll2_def occurrences_def)
  have c: "p_votes p = [(''s1'', [''opt-0'']), (''s2'', [''opt-1'', ''opt-7''])]"
    "p_votes q = [(''s2'', [''opt-1''])]" "\<not> p_multiple q"
    by (simp_all add: p_def q_def ex_poll2_def)
  show ?thesis using h1 h2 a b c by (simp add: h3 h4)
qed

text \<open>The claim as stated fails for an options array that repeats an id in a poll with
  multiple = true: one user votes \<^verbatim>\<open>['opt-0', 'opt-0']\<close>, the count of the option is 2,
  and one user has a list that contains the id.\<close>

theorem pollVote_duplicate_counterexample:
  "p_multiple ex_poll
   \<and> pollsMap ex_state (Some ''R1'') = Some (Some ex_poll)
   \<and> p_votes (the (the (pollsMap (fst (on_message ex_state 1 ex_env
         (PollVote None (Some [''opt-0'', ''opt-0''])))) (Some ''R1''))))
       = [(''s1'', [''opt-0'', ''opt-0''])]
   \<and> map (\<lambda>opt. (o_id opt, o_count opt))
         (p_options (the (the (pollsMap (fst (on_message ex_state 1 ex_env
            (PollVote None (Some [''opt-0'', ''opt-0''])))) (Some ''R1'')))))
       = [(''opt-0'', 2), (''opt-1'', 0)]
   \<and> card {u. \<exists>vals. (u, vals) \<in> set [(''s1'', [''opt-0'', ''opt-0''])] \<and> ''opt-0'' \<in> set vals} = 1"
proof -
  have "{u. \<exists>vals. (u, vals) \<in> set [(''s1'', [''opt-0'', ''opt-0''])] \<and> ''opt-0'' \<in> set vals} = {''s1''}"
    by auto
  then have c: "card {u. \<exists>vals. (u, vals) \<in> set [(''s1'', [''opt-0'', ''opt-0''])] \<and> ''opt-0'' \<in> set vals} = 1"
    by simp
  show ?thesis unfolding c by (simp add: run_defs cong: let_weak_cong)
qed


end
